theory Spec2Isabelle
  imports Complex_Main
begin

section \<open>The backtest runner of sigma-quant-stream, embedded in HOL\<close>

text \<open>
  The definitions below follow \<^verbatim>\<open>lib/backtest_runner.py\<close> and
  \<^verbatim>\<open>lib/crypto/risk_modeler.py\<close> function by function. Python floats are
  idealised as reals (no rounding error, no NaN); the one place where the source produces
  an infinite float, the profit factor, has a type of its own. Python integers are
  \<open>int\<close>, bar indices produced by \<^verbatim>\<open>range\<close> are \<open>nat\<close>. Every
  \<^verbatim>\<open>raise\<close> of the source is an \<open>Inl\<close> result.
\<close>

subsection \<open>Errors and numeric helpers\<close>

datatype error =
    ValueError string
  | IndexError
  | ZeroDivisionError
  | StrategyError string

text \<open>Sequencing of fallible computations: the first exception ends the computation.\<close>

definition bind_err :: "error + 'a \<Rightarrow> ('a \<Rightarrow> error + 'b) \<Rightarrow> error + 'b" where
  "bind_err r f = (case r of Inl e \<Rightarrow> Inl e | Inr x \<Rightarrow> f x)"

text \<open>Python's \<^verbatim>\<open>a / b\<close> on floats (and on ints): a zero divisor raises.\<close>

definition py_truediv :: "real \<Rightarrow> real \<Rightarrow> error + real" where
  "py_truediv a b = (if b = 0 then Inl ZeroDivisionError else Inr (a / b))"

text \<open>
  Python's \<^verbatim>\<open>round(x, ndigits)\<close>: to the nearest multiple of \<open>10^-ndigits\<close>,
  a tie going to the even neighbour.
\<close>

definition round_half_even :: "real \<Rightarrow> int" where
  "round_half_even y =
     (let f = \<lfloor>y\<rfloor>; d = y - of_int f
      in if d < 1 / 2 then f
         else if 1 / 2 < d then f + 1
         else if even f then f else f + 1)"

definition py_round :: "real \<Rightarrow> nat \<Rightarrow> real" where
  "py_round x nd = of_int (round_half_even (x * 10 ^ nd)) / 10 ^ nd"

text \<open>A float that may be \<^verbatim>\<open>float("inf")\<close>; \<^verbatim>\<open>round\<close> leaves infinity alone.\<close>

datatype pyfloat = Fin real | PInf

fun py_round_f :: "pyfloat \<Rightarrow> nat \<Rightarrow> pyfloat" where
  "py_round_f (Fin x) nd = Fin (py_round x nd)"
| "py_round_f PInf nd = PInf"

subsection \<open>Cost models\<close>

text \<open>
  A cost model is a dict: an optional \<^verbatim>\<open>"type"\<close> entry holding a string, and
  numeric entries under other keys. \<^verbatim>\<open>cost_model.get(key, default)\<close> is \<open>cm_get\<close>.
\<close>

record cost_model =
  cm_type :: "string option"
  cm_num :: "string \<rightharpoonup> real"

definition cm_get :: "cost_model \<Rightarrow> string \<Rightarrow> real \<Rightarrow> real" where
  "cm_get cm key dflt = (case cm_num cm key of None \<Rightarrow> dflt | Some v \<Rightarrow> v)"

definition compute_round_trip_cost :: "cost_model \<Rightarrow> real \<Rightarrow> error + real" where
  "compute_round_trip_cost cm notional =
     (let ty = (case cm_type cm of None \<Rightarrow> ''futures'' | Some t \<Rightarrow> t)
      in if ty = ''futures'' then
           (let commission = cm_get cm ''commission_per_side'' 2.50;
                slippage_ticks = cm_get cm ''slippage_ticks'' 0.5;
                tick_value = cm_get cm ''tick_value'' 12.50
            in Inr (2 * commission + 2 * slippage_ticks * tick_value))
         else if ty = ''crypto_cex'' then
           (let maker = cm_get cm ''maker_fee'' 0.0002;
                taker = cm_get cm ''taker_fee'' 0.0005;
                slip = cm_get cm ''slippage_pct'' 0.0005
            in Inr ((maker + taker + 2 * slip) * notional))
         else if ty = ''crypto_dex'' then
           (let maker = cm_get cm ''maker_fee'' 0.0002;
                taker = cm_get cm ''taker_fee'' 0.0005;
                gas = cm_get cm ''gas_per_trade'' 0.50;
                slip = cm_get cm ''slippage_pct'' 0.001
            in Inr ((maker + taker + 2 * slip) * notional + 2 * gas))
         else Inl (ValueError (''Unknown cost model type: '' @ ty)))"

text \<open>The default futures model of the source, and the one of the command-line example.\<close>

definition DEFAULT_FUTURES_COST :: cost_model where
  "DEFAULT_FUTURES_COST =
     \<lparr>cm_type = Some ''futures'',
      cm_num = [''commission_per_side'' \<mapsto> 2.50, ''slippage_ticks'' \<mapsto> 0.5,
                ''tick_value'' \<mapsto> 12.50]\<rparr>"

subsection \<open>Trade simulation\<close>

text \<open>
  A DataFrame is a list of rows, so that its columns have one length by construction, as
  pandas guarantees. \<open>has_signal\<close> says whether the frame has a \<^verbatim>\<open>signal\<close> column
  (it has one after \<^verbatim>\<open>strategy.signals()\<close>); \<open>bar_signal\<close> is read only then.
\<close>

record bar =
  bar_open :: real
  bar_high :: real
  bar_low :: real
  bar_close :: real
  bar_signal :: int

record frame =
  has_signal :: bool
  rows :: "bar list"

record trade =
  entry_bar :: nat
  exit_bar :: nat
  side :: string
  entry_price :: real
  exit_price :: real
  pnl :: real
  mfe :: real
  mae :: real

text \<open>The local variables of \<^verbatim>\<open>simulate_trades\<close>.\<close>

record sim_state =
  position :: int
  cur_entry_bar :: nat
  cur_entry_price :: real
  running_mfe :: real
  running_mae :: real
  trades :: "trade list"

definition sim_init :: sim_state where
  "sim_init = \<lparr>position = 0, cur_entry_bar = 0, cur_entry_price = 0,
                running_mfe = 0, running_mae = 0, trades = []\<rparr>"

text \<open>
  Closing the open position at a price and a bar: the raw profit by side, the round-trip
  cost on the absolute entry price, and the trade appended. The source has this block
  twice, in the loop and after it.
\<close>

definition close_position :: "cost_model \<Rightarrow> sim_state \<Rightarrow> real \<Rightarrow> nat \<Rightarrow> error + sim_state" where
  "close_position cm s price xbar =
     (let raw_pnl = (if position s = 1 then price - cur_entry_price s
                     else cur_entry_price s - price);
          notional = \<bar>cur_entry_price s\<bar>
      in bind_err (compute_round_trip_cost cm notional) (\<lambda>rt_cost.
           Inr (s\<lparr>trades := trades s @
                  [\<lparr>entry_bar = cur_entry_bar s, exit_bar = xbar,
                    side = (if position s = 1 then ''long'' else ''short''),
                    entry_price = cur_entry_price s, exit_price = price,
                    pnl = raw_pnl - rt_cost,
                    mfe = running_mfe s, mae = running_mae s\<rparr>]\<rparr>)))"

definition open_position :: "sim_state \<Rightarrow> int \<Rightarrow> nat \<Rightarrow> real \<Rightarrow> sim_state" where
  "open_position s sig i price =
     (if sig \<noteq> 0 then
        s\<lparr>position := sig, cur_entry_bar := i, cur_entry_price := price,
          running_mfe := 0, running_mae := 0\<rparr>
      else s\<lparr>position := 0\<rparr>)"

definition update_excursions :: "sim_state \<Rightarrow> bar \<Rightarrow> sim_state" where
  "update_excursions s b =
     (if position s \<noteq> 0 then
        (let excursion_high = (if position s = 1 then bar_high b - cur_entry_price s
                               else cur_entry_price s - bar_low b);
             excursion_low = (if position s = 1 then bar_low b - cur_entry_price s
                              else cur_entry_price s - bar_high b)
         in s\<lparr>running_mfe := max (running_mfe s) excursion_high,
              running_mae := min (running_mae s) excursion_low\<rparr>)
      else s)"

text \<open>The body of the loop at bar \<open>i\<close>; the loop calls it with \<open>1 \<le> i < n\<close> only.\<close>

definition sim_step :: "cost_model \<Rightarrow> bar list \<Rightarrow> sim_state \<Rightarrow> nat \<Rightarrow> error + sim_state" where
  "sim_step cm bs s i =
     (let sig = bar_signal (bs ! (i - 1))
      in bind_err
           (if sig \<noteq> position s then
              bind_err
                (if position s \<noteq> 0 then close_position cm s (bar_open (bs ! i)) i
                 else Inr s)
                (\<lambda>s1. Inr (open_position s1 sig i (bar_open (bs ! i))))
            else Inr s)
           (\<lambda>s2. Inr (update_excursions s2 (bs ! i))))"

fun sim_loop :: "cost_model \<Rightarrow> bar list \<Rightarrow> sim_state \<Rightarrow> nat list \<Rightarrow> error + sim_state" where
  "sim_loop cm bs s [] = Inr s"
| "sim_loop cm bs s (i # is) = bind_err (sim_step cm bs s i) (\<lambda>s'. sim_loop cm bs s' is)"

text \<open>
  The state once the iterations \<open>1, \<dots>, i\<close> have run: the position in it is the one
  held during bar \<open>i\<close>.
\<close>

definition state_after :: "cost_model \<Rightarrow> frame \<Rightarrow> nat \<Rightarrow> error + sim_state" where
  "state_after cm df i = sim_loop cm (rows df) sim_init [1..<Suc i]"

definition simulate_trades :: "frame \<Rightarrow> cost_model \<Rightarrow> error + trade list" where
  "simulate_trades df cm =
     (if \<not> has_signal df then
        Inl (ValueError ''DataFrame must have a 'signal' column after strategy.signals()'')
      else
        (let bs = rows df; n = length bs
         in bind_err (sim_loop cm bs sim_init [1..<n]) (\<lambda>s.
              if position s \<noteq> 0 then
                (if bs = [] then Inl IndexError
                 else bind_err (close_position cm s (bar_close (last bs)) (n - 1))
                        (\<lambda>s'. Inr (trades s')))
              else Inr (trades s))))"

subsection \<open>Metrics\<close>

record metrics =
  total_pnl :: real
  sharpe_ratio :: real
  max_drawdown :: real
  max_drawdown_dollars :: real
  win_rate :: real
  profit_factor :: pyfloat
  total_trades :: nat
  avg_trade_pnl :: real
  avg_winner :: real
  avg_loser :: real
  max_consecutive_losses :: nat
  avg_holding_bars :: real
  expectancy :: real
  calmar_ratio :: real

text \<open>\<^verbatim>\<open>BacktestMetrics()\<close>: every field at its default.\<close>

definition BacktestMetrics_default :: metrics where
  "BacktestMetrics_default =
     \<lparr>total_pnl = 0, sharpe_ratio = 0, max_drawdown = 0, max_drawdown_dollars = 0,
      win_rate = 0, profit_factor = Fin 0, total_trades = 0, avg_trade_pnl = 0,
      avg_winner = 0, avg_loser = 0, max_consecutive_losses = 0, avg_holding_bars = 0,
      expectancy = 0, calmar_ratio = 0\<rparr>"

text \<open>
  The numpy reductions, on the arrays the source applies them to. \<open>np_mean\<close> and
  \<open>np_max\<close> are called on non-empty arrays only (the source guards each call).
\<close>

definition np_mean :: "real list \<Rightarrow> real" where
  "np_mean xs = sum_list xs / real (length xs)"

definition np_std :: "real list \<Rightarrow> real" where
  "np_std xs = sqrt (np_mean (map (\<lambda>x. (x - np_mean xs)\<^sup>2) xs))"

fun np_max :: "real list \<Rightarrow> real" where
  "np_max [x] = x"
| "np_max (x # xs) = max x (np_max xs)"

fun cumsum_from :: "real \<Rightarrow> real list \<Rightarrow> real list" where
  "cumsum_from acc [] = []"
| "cumsum_from acc (x # xs) = (acc + x) # cumsum_from (acc + x) xs"

definition np_cumsum :: "real list \<Rightarrow> real list" where
  "np_cumsum xs = cumsum_from 0 xs"

fun maximum_accumulate_from :: "real \<Rightarrow> real list \<Rightarrow> real list" where
  "maximum_accumulate_from m [] = []"
| "maximum_accumulate_from m (x # xs) = max m x # maximum_accumulate_from (max m x) xs"

definition maximum_accumulate :: "real list \<Rightarrow> real list" where
  "maximum_accumulate xs = (case xs of [] \<Rightarrow> [] | x # ys \<Rightarrow> x # maximum_accumulate_from x ys)"

text \<open>The loop over \<^verbatim>\<open>pnls\<close> that finds the longest run of losing trades.\<close>

fun consec_losses :: "nat \<Rightarrow> nat \<Rightarrow> real list \<Rightarrow> nat" where
  "consec_losses max_consec current_consec [] = max_consec"
| "consec_losses max_consec current_consec (p # ps) =
     (if p < 0 then
        consec_losses (max max_consec (current_consec + 1)) (current_consec + 1) ps
      else consec_losses max_consec 0 ps)"

definition compute_metrics :: "trade list \<Rightarrow> error + metrics" where
  "compute_metrics ts =
     (if ts = [] then Inr BacktestMetrics_default
      else
        (let pnls = map pnl ts;
             total = sum_list pnls;
             n_trades = length ts;
             winners = filter (\<lambda>p. 0 < p) pnls;
             losers = filter (\<lambda>p. p < 0) pnls
         in
         bind_err (if 0 < n_trades then py_truediv (real (length winners)) (real n_trades)
                   else Inr 0) (\<lambda>wr.
         let avg_trade = (if 0 < n_trades then np_mean pnls else 0);
             avg_win = (if 0 < length winners then np_mean winners else 0);
             avg_lose = (if 0 < length losers then np_mean losers else 0);
             gross_profit = (if 0 < length winners then sum_list winners else 0);
             gross_loss = (if 0 < length losers then \<bar>sum_list losers\<bar> else 0)
         in
         bind_err (if 0 < gross_loss then
                     bind_err (py_truediv gross_profit gross_loss) (\<lambda>q. Inr (Fin q))
                   else Inr PInf) (\<lambda>pf.
         let sharpe = (if 1 < n_trades \<and> 0 < np_std pnls
                       then (np_mean pnls / np_std pnls) * sqrt 252 else 0);
             equity = np_cumsum pnls;
             running_max = maximum_accumulate equity;
             drawdowns = map2 (\<lambda>m e. m - e) running_max equity;
             max_dd_dollars = (if 0 < length drawdowns then np_max drawdowns else 0);
             peak = (if 0 < length running_max then np_max running_max else 0)
         in
         bind_err (if 0 < peak then py_truediv max_dd_dollars peak else Inr 0) (\<lambda>max_dd_pct.
         let max_consec = consec_losses 0 0 pnls;
             holding_bars = map (\<lambda>t. real_of_int (int (exit_bar t) - int (entry_bar t))) ts;
             avg_holding = (if holding_bars \<noteq> [] then np_mean holding_bars else 0)
         in
         bind_err (if 0 < max_dd_dollars then
                     bind_err (py_truediv total max_dd_dollars) (\<lambda>q. Inr \<bar>q\<bar>)
                   else Inr 0) (\<lambda>calmar.
         Inr \<lparr>total_pnl = py_round total 2,
              sharpe_ratio = py_round sharpe 4,
              max_drawdown = py_round max_dd_pct 4,
              max_drawdown_dollars = py_round max_dd_dollars 2,
              win_rate = py_round wr 4,
              profit_factor = py_round_f pf 4,
              total_trades = n_trades,
              avg_trade_pnl = py_round avg_trade 2,
              avg_winner = py_round avg_win 2,
              avg_loser = py_round avg_lose 2,
              max_consecutive_losses = max_consec,
              avg_holding_bars = py_round avg_holding 2,
              expectancy = py_round avg_trade 2,
              calmar_ratio = py_round calmar 4\<rparr>))))))"

subsection \<open>Anti-overfit flags and grading\<close>

record month_return =
  month :: string
  month_pnl :: real

record anti_overfit_flags =
  sharpe_above_3 :: bool
  win_rate_above_80 :: bool
  trades_below_100 :: bool
  no_losing_months :: bool

definition check_overfit_flags :: "metrics \<Rightarrow> month_return list \<Rightarrow> anti_overfit_flags" where
  "check_overfit_flags m monthly_returns =
     \<lparr>sharpe_above_3 = (3.0 < sharpe_ratio m),
      win_rate_above_80 = (0.80 < win_rate m),
      trades_below_100 = (total_trades m < 100),
      no_losing_months =
        (if monthly_returns \<noteq> [] then
           (let losing_months = length (filter (\<lambda>r. month_pnl r < 0) monthly_returns)
            in losing_months = 0 \<and> 3 < length monthly_returns)
         else False)\<rparr>"

definition grade_result :: "metrics \<Rightarrow> anti_overfit_flags \<Rightarrow> bool \<times> string" where
  "grade_result m flags =
     (if sharpe_above_3 flags then (False, ''rejected'')
      else if win_rate_above_80 flags then (False, ''rejected'')
      else if total_trades m < 30 then (False, ''rejected'')
      else if no_losing_months flags then (False, ''rejected'')
      else if 1.0 \<le> sharpe_ratio m \<and> sharpe_ratio m \<le> 1.5 then (True, ''under_review'')
      else if 0.15 < max_drawdown m then (True, ''under_review'')
      else if 30 \<le> total_trades m \<and> total_trades m \<le> 100 then (True, ''under_review'')
      else if 1.5 < sharpe_ratio m \<and> sharpe_ratio m \<le> 3.0
              \<and> max_drawdown m \<le> 0.15
              \<and> 100 < total_trades m
              \<and> win_rate m \<le> 0.80 then (True, ''good'')
      else (True, ''under_review''))"

text \<open>The grade of a result, as \<^verbatim>\<open>run_backtest\<close> computes it: the flags, then the grade.\<close>

definition grade :: "metrics \<Rightarrow> month_return list \<Rightarrow> bool \<times> string" where
  "grade m monthly_returns = grade_result m (check_overfit_flags m monthly_returns)"

text \<open>
  The decision table as the specification words it, one row after the other, the first
  matching row deciding. It is compared with \<open>grade\<close> below.
\<close>

definition grade_table :: "metrics \<Rightarrow> month_return list \<Rightarrow> bool \<times> string" where
  "grade_table m monthly =
     (if sharpe_ratio m > 3.0 then (False, ''rejected'')
      else if win_rate m > 0.80 then (False, ''rejected'')
      else if total_trades m < 30 then (False, ''rejected'')
      else if filter (\<lambda>r. month_pnl r < 0) monthly = [] \<and> length monthly > 3
        then (False, ''rejected'')
      else if (1.0 \<le> sharpe_ratio m \<and> sharpe_ratio m \<le> 1.5)
              \<or> max_drawdown m > 0.15
              \<or> (30 \<le> total_trades m \<and> total_trades m \<le> 100)
        then (True, ''under_review'')
      else if 1.5 < sharpe_ratio m \<and> sharpe_ratio m \<le> 3.0
              \<and> max_drawdown m \<le> 0.15
              \<and> total_trades m > 100
              \<and> win_rate m \<le> 0.80
        then (True, ''good'')
      else (True, ''under_review''))"

subsection \<open>Walk-forward analysis\<close>

record wf_config =
  train_bars :: int
  test_bars :: int
  step_bars :: "int option"

record fold =
  fold_no :: nat
  train_range :: "int \<times> int"
  test_range :: "int \<times> int"
  in_sample :: metrics
  out_of_sample :: metrics
  oos_decay_pct :: real

record wf_aggregate =
  avg_oos_sharpe :: real
  avg_oos_pnl :: real
  total_oos_pnl :: real
  avg_oos_decay_pct :: real
  max_oos_decay_pct :: real

record wf_report =
  config :: wf_config
  total_folds :: nat
  folds :: "fold list"
  aggregate :: wf_aggregate

text \<open>
  \<^verbatim>\<open>df.iloc[a:b]\<close> with Python's slice rules: a negative bound counts from the end,
  and both bounds are clamped to the frame.
\<close>

definition slice_bound :: "nat \<Rightarrow> int \<Rightarrow> nat" where
  "slice_bound n i = (if i < 0 then nat (max 0 (i + int n)) else min (nat i) n)"

definition iloc :: "frame \<Rightarrow> int \<Rightarrow> int \<Rightarrow> frame" where
  "iloc df a b =
     (let n = length (rows df); lo = slice_bound n a; hi = slice_bound n b
      in df\<lparr>rows := take (hi - lo) (drop lo (rows df))\<rparr>)"

text \<open>
  A strategy is the caller's: loading it and running its \<^verbatim>\<open>indicators\<close> and
  \<^verbatim>\<open>signals\<close> on a frame gives a frame, or raises. One fold applies a fresh
  strategy to the train slice and to the test slice.
\<close>

type_synonym strategy = "frame \<Rightarrow> error + frame"

definition run_fold ::
  "strategy \<Rightarrow> frame \<Rightarrow> cost_model \<Rightarrow> int \<Rightarrow> int \<Rightarrow> int \<Rightarrow> nat \<Rightarrow> int \<Rightarrow> error + fold" where
  "run_fold strat df cm train test total_bars fold_num start =
     (let train_start = start;
          train_end = start + train;
          test_start = train_end;
          test_end = min (train_end + test) total_bars
      in bind_err (strat (iloc df train_start train_end)) (\<lambda>train_df.
         bind_err (simulate_trades train_df cm) (\<lambda>is_trades.
         bind_err (compute_metrics is_trades) (\<lambda>is_metrics.
         bind_err (strat (iloc df test_start test_end)) (\<lambda>test_df.
         bind_err (simulate_trades test_df cm) (\<lambda>oos_trades.
         bind_err (compute_metrics oos_trades) (\<lambda>oos_metrics.
         bind_err (if sharpe_ratio is_metrics \<noteq> 0 then
                     bind_err (py_truediv (sharpe_ratio oos_metrics) (sharpe_ratio is_metrics))
                       (\<lambda>q. Inr (1.0 - q))
                   else Inr 0.0) (\<lambda>oos_decay.
         Inr \<lparr>fold_no = fold_num,
              train_range = (train_start, train_end),
              test_range = (test_start, test_end),
              in_sample = is_metrics,
              out_of_sample = oos_metrics,
              oos_decay_pct = py_round (oos_decay * 100) 2\<rparr>))))))))"

text \<open>
  The \<^verbatim>\<open>while\<close> loop. Nothing in it bounds the number of iterations when the step
  is not positive, so the loop is a partial function: \<open>None\<close> is a run that never
  returns, \<open>Some (Inl e)\<close> one that raises \<open>e\<close>.
\<close>

partial_function (option) wf_loop ::
  "strategy \<Rightarrow> frame \<Rightarrow> cost_model \<Rightarrow> int \<Rightarrow> int \<Rightarrow> int \<Rightarrow> int \<Rightarrow> nat \<Rightarrow> int \<Rightarrow> fold list
     \<Rightarrow> (error + fold list) option" where
  "wf_loop strat df cm train test step total_bars fold_num start acc =
     (if start + train + test \<le> total_bars then
        (case run_fold strat df cm train test total_bars (fold_num + 1) start of
           Inl e \<Rightarrow> Some (Inl e)
         | Inr f \<Rightarrow> wf_loop strat df cm train test step total_bars (fold_num + 1) (start + step)
                     (acc @ [f]))
      else Some (Inr acc))"

text \<open>\<^verbatim>\<open>wf_config.get("step_bars", test_bars)\<close>.\<close>

definition cfg_step :: "wf_config \<Rightarrow> int" where
  "cfg_step cfg = (case step_bars cfg of None \<Rightarrow> test_bars cfg | Some s \<Rightarrow> s)"

definition wf_aggregate_of :: "fold list \<Rightarrow> wf_aggregate" where
  "wf_aggregate_of fs =
     (let all_oos_sharpes = map (\<lambda>f. sharpe_ratio (out_of_sample f)) fs;
          all_oos_pnls = map (\<lambda>f. total_pnl (out_of_sample f)) fs;
          all_decay = map oos_decay_pct fs
      in \<lparr>avg_oos_sharpe =
             (if all_oos_sharpes \<noteq> [] then py_round (np_mean all_oos_sharpes) 4 else 0.0),
           avg_oos_pnl = (if all_oos_pnls \<noteq> [] then py_round (np_mean all_oos_pnls) 2 else 0.0),
           total_oos_pnl =
             (if all_oos_pnls \<noteq> [] then py_round (sum_list all_oos_pnls) 2 else 0.0),
           avg_oos_decay_pct = (if all_decay \<noteq> [] then py_round (np_mean all_decay) 2 else 0.0),
           max_oos_decay_pct =
             (if all_decay \<noteq> [] then py_round (np_max all_decay) 2 else 0.0)\<rparr>)"

definition run_walk_forward ::
  "strategy \<Rightarrow> frame \<Rightarrow> cost_model \<Rightarrow> wf_config \<Rightarrow> (error + wf_report) option" where
  "run_walk_forward strat df cm cfg =
     (let train = train_bars cfg;
          test = test_bars cfg;
          step = cfg_step cfg;
          total_bars = int (length (rows df))
      in map_option
           (\<lambda>r. bind_err r (\<lambda>fs.
              Inr \<lparr>config = cfg, total_folds = length fs, folds = fs,
                   aggregate = wf_aggregate_of fs\<rparr>))
           (wf_loop strat df cm train test step total_bars 0 0 []))"

subsection \<open>Extreme-value VaR\<close>





subsection \<open>Predicates and data used in the statements\<close>

text \<open>The cost models that \<open>compute_round_trip_cost\<close> accepts.\<close>

definition cost_model_ok :: "cost_model \<Rightarrow> bool" where
  "cost_model_ok cm =
     (case cm_type cm of None \<Rightarrow> True
      | Some t \<Rightarrow> t = ''futures'' \<or> t = ''crypto_cex'' \<or> t = ''crypto_dex'')"

text \<open>A bar whose open, high, low and close are one price.\<close>

definition flat_bar :: "real \<Rightarrow> int \<Rightarrow> bar" where
  "flat_bar p sg = \<lparr>bar_open = p, bar_high = p, bar_low = p, bar_close = p, bar_signal = sg\<rparr>"

text \<open>The round-trip scenario: prices 100, 101, 99, 102, 105 and signals 0, 1, 1, 1, 0.\<close>

definition scenario_frame :: frame where
  "scenario_frame =
     \<lparr>has_signal = True,
      rows = [flat_bar 100 0, flat_bar 101 1, flat_bar 99 1, flat_bar 102 1, flat_bar 105 0]\<rparr>"

text \<open>The state while the single position opened at bar \<open>k + 1\<close> is held.\<close>

definition holding :: "bar list \<Rightarrow> nat \<Rightarrow> int \<Rightarrow> sim_state \<Rightarrow> bool" where
  "holding bs k v s \<longleftrightarrow>
     position s = v \<and> cur_entry_bar s = k + 1 \<and> cur_entry_price s = bar_open (bs ! (k + 1))
     \<and> trades s = [] \<and> 0 \<le> running_mfe s \<and> running_mae s \<le> 0"

text \<open>The loop invariant of the simulation before iteration \<open>m\<close>.\<close>

definition trade_strict :: "trade \<Rightarrow> bool" where
  "trade_strict t \<longleftrightarrow> entry_bar t < exit_bar t \<and> 0 \<le> mfe t \<and> mae t \<le> 0"

definition sim_inv :: "nat \<Rightarrow> sim_state \<Rightarrow> bool" where
  "sim_inv m s \<longleftrightarrow>
     (position s = 0 \<or> cur_entry_bar s < m) \<and> 0 \<le> running_mfe s \<and> running_mae s \<le> 0
     \<and> list_all trade_strict (trades s)"

text \<open>A metrics bundle with the four fields the grade reads, the others at their defaults.\<close>

definition graded :: "real \<Rightarrow> real \<Rightarrow> nat \<Rightarrow> real \<Rightarrow> metrics" where
  "graded sh wr n dd =
     BacktestMetrics_default\<lparr>sharpe_ratio := sh, win_rate := wr, total_trades := n,
       max_drawdown := dd\<rparr>"

text \<open>Frames used as concrete inputs: a flip at bar 1 of 4, a flip on the last bar, and
  a position entered on the last bar.\<close>

definition flip_frame :: frame where
  "flip_frame =
     \<lparr>has_signal = True,
      rows = [flat_bar 100 0, flat_bar 101 1, flat_bar 99 1, flat_bar 102 1]\<rparr>"

definition late_frame :: frame where
  "late_frame = \<lparr>has_signal = True, rows = [flat_bar 100 0, flat_bar 101 1]\<rparr>"

definition last_entry_frame :: frame where
  "last_entry_frame = \<lparr>has_signal = True, rows = [flat_bar 100 1, flat_bar 101 1]\<rparr>"

text \<open>A closed long trade with a given net profit.\<close>

definition won :: "real \<Rightarrow> trade" where
  "won p = \<lparr>entry_bar = 1, exit_bar = 2, side = ''long'', entry_price = 100,
            exit_price = 100 + p, pnl = p, mfe = p, mae = 0\<rparr>"

text \<open>
  The number of iterations of the walk-forward loop from a start position, for a positive
  step.
\<close>

definition fold_count :: "int \<Rightarrow> int \<Rightarrow> int \<Rightarrow> int \<Rightarrow> int \<Rightarrow> nat" where
  "fold_count total_bars train test step start =
     (if start + train + test \<le> total_bars
      then nat ((total_bars - start - train - test) div step) + 1 else 0)"

text \<open>A strategy that is always flat: it adds a signal column of zeros.\<close>

definition flat_strategy :: strategy where
  "flat_strategy df =
     Inr \<lparr>has_signal = True, rows = map (\<lambda>b. b\<lparr>bar_signal := 0\<rparr>) (rows df)\<rparr>"

text \<open>A price frame of five bars, as loaded: no signal column yet.\<close>

definition price_frame :: frame where
  "price_frame =
     \<lparr>has_signal = False,
      rows = [flat_bar 100 0, flat_bar 101 0, flat_bar 99 0, flat_bar 102 0, flat_bar 105 0]\<rparr>"

definition zero_aggregate :: wf_aggregate where
  "zero_aggregate =
     \<lparr>avg_oos_sharpe = 0, avg_oos_pnl = 0, total_oos_pnl = 0, avg_oos_decay_pct = 0,
      max_oos_decay_pct = 0\<rparr>"



text \<open>
  A trade opened and closed inside the series: entered at the open of the bar after a
  non-zero signal, exited at the open of the bar after the signal changed.
\<close>

definition loop_trade :: "bar list \<Rightarrow> trade \<Rightarrow> bool" where
  "loop_trade bs t \<longleftrightarrow>
     1 \<le> entry_bar t \<and> entry_bar t < exit_bar t \<and> exit_bar t < length bs
     \<and> bar_signal (bs ! (entry_bar t - 1)) \<noteq> 0
     \<and> entry_price t = bar_open (bs ! entry_bar t)
     \<and> bar_signal (bs ! (exit_bar t - 1)) \<noteq> bar_signal (bs ! (entry_bar t - 1))
     \<and> exit_price t = bar_open (bs ! exit_bar t)"

text \<open>The position once the loop has run: the signal of the bar before the last.\<close>

definition final_position :: "bar list \<Rightarrow> int" where
  "final_position bs = (if 2 \<le> length bs then bar_signal (bs ! (length bs - 2)) else 0)"

text \<open>The trade closed by the end-of-series flush, at the close of the last bar.\<close>

definition flush_trade :: "bar list \<Rightarrow> trade \<Rightarrow> bool" where
  "flush_trade bs t \<longleftrightarrow>
     1 \<le> entry_bar t \<and> entry_bar t \<le> exit_bar t \<and> exit_bar t = length bs - 1
     \<and> bar_signal (bs ! (entry_bar t - 1)) = final_position bs
     \<and> entry_price t = bar_open (bs ! entry_bar t)
     \<and> exit_price t = bar_close (last bs)"

text \<open>The loop invariant on prices, before iteration \<open>m\<close>.\<close>

definition price_inv :: "bar list \<Rightarrow> nat \<Rightarrow> sim_state \<Rightarrow> bool" where
  "price_inv bs m s \<longleftrightarrow>
     list_all (loop_trade bs) (trades s)
     \<and> (position s = 0
         \<or> (1 \<le> cur_entry_bar s \<and> cur_entry_bar s < m
            \<and> bar_signal (bs ! (cur_entry_bar s - 1)) = position s
            \<and> cur_entry_price s = bar_open (bs ! cur_entry_bar s)))"

text \<open>
  More concrete inputs: a flip on the last of three bars, a cost model of an unknown type,
  the round-trip scenario with the signal column that gives the positions 0, 1, 1, 1, 0,
  and a long position reversed into a short one.
\<close>

definition last_flip_frame :: frame where
  "last_flip_frame =
     \<lparr>has_signal = True, rows = [flat_bar 100 0, flat_bar 101 0, flat_bar 99 1]\<rparr>"

definition spot_cost :: cost_model where
  "spot_cost = \<lparr>cm_type = Some ''spot'', cm_num = Map.empty\<rparr>"

definition scenario_lagged_frame :: frame where
  "scenario_lagged_frame =
     \<lparr>has_signal = True,
      rows = [flat_bar 100 1, flat_bar 101 1, flat_bar 99 1, flat_bar 102 0, flat_bar 105 0]\<rparr>"

definition reversal_frame :: frame where
  "reversal_frame =
     \<lparr>has_signal = True,
      rows = [flat_bar 100 1, flat_bar 101 1, flat_bar 99 (- 1), flat_bar 102 (- 1),
              flat_bar 104 0]\<rparr>"

text \<open>
  One slice through the strategy, the simulator and the metrics, and the decay of a fold,
  as \<open>run_fold\<close> computes them.
\<close>

definition evaluate_slice :: "strategy \<Rightarrow> cost_model \<Rightarrow> frame \<Rightarrow> error + metrics" where
  "evaluate_slice strat cm d =
     bind_err (strat d) (\<lambda>d'. bind_err (simulate_trades d' cm) compute_metrics)"

definition decay_pct :: "metrics \<Rightarrow> metrics \<Rightarrow> real" where
  "decay_pct is_m oos_m =
     py_round ((if sharpe_ratio is_m \<noteq> 0 then 1 - sharpe_ratio oos_m / sharpe_ratio is_m
                else 0) * 100) 2"

section \<open>Properties\<close>

subsection \<open>Fallible computations\<close>

lemma bind_err_simps [simp]:
  "bind_err (Inl e) f = Inl e"
  "bind_err (Inr x) f = f x"
  by (simp_all add: bind_err_def)

lemma bind_err_eq_Inr: "bind_err r f = Inr y \<longleftrightarrow> (\<exists>x. r = Inr x \<and> f x = Inr y)"
  by (cases r) simp_all

lemma py_truediv_pos: "0 < b \<Longrightarrow> py_truediv a b = Inr (a / b)"
  by (simp add: py_truediv_def)

subsection \<open>Cost model\<close>

text \<open>
  Claim C7, counterexample. A cost model without a \<^verbatim>\<open>"type"\<close> entry is not one of
  the supported variants, yet it is not refused: \<^verbatim>\<open>cost_model.get("type", "futures")\<close>
  makes it a futures model, here with the default fees, 2 * 2.50 + 2 * 0.5 * 12.50 = 17.5.
\<close>

theorem untagged_cost_model_defaults_to_futures:
  "compute_round_trip_cost \<lparr>cm_type = None, cm_num = Map.empty\<rparr> 1000 = Inr 17.5"
  by (simp add: compute_round_trip_cost_def cm_get_def)

text \<open>
  Claim C7, as amended. A cost model whose type tag is present and is none of
  \<^verbatim>\<open>futures\<close>, \<^verbatim>\<open>crypto_cex\<close>, \<^verbatim>\<open>crypto_dex\<close> fails with a
  \<^verbatim>\<open>ValueError\<close> whose message names the tag. A model without a tag is costed as
  futures. For the supported variants the cost is the documented formula, every
  missing field read at the source's default, and no exception is raised.
\<close>

theorem round_trip_cost_by_tag:
  "(cm_type cm = Some t \<and> t \<noteq> ''futures'' \<and> t \<noteq> ''crypto_cex'' \<and> t \<noteq> ''crypto_dex''
      \<longrightarrow> compute_round_trip_cost cm notional =
            Inl (ValueError (''Unknown cost model type: '' @ t)))
   \<and> (cm_type cm = None \<or> cm_type cm = Some ''futures''
      \<longrightarrow> compute_round_trip_cost cm notional =
            Inr (2 * cm_get cm ''commission_per_side'' 2.5
                 + 2 * cm_get cm ''slippage_ticks'' 0.5 * cm_get cm ''tick_value'' 12.5))
   \<and> (cm_type cm = Some ''crypto_cex''
      \<longrightarrow> compute_round_trip_cost cm notional =
            Inr ((cm_get cm ''maker_fee'' 0.0002 + cm_get cm ''taker_fee'' 0.0005
                  + 2 * cm_get cm ''slippage_pct'' 0.0005) * notional))
   \<and> (cm_type cm = Some ''crypto_dex''
      \<longrightarrow> compute_round_trip_cost cm notional =
            Inr ((cm_get cm ''maker_fee'' 0.0002 + cm_get cm ''taker_fee'' 0.0005
                  + 2 * cm_get cm ''slippage_pct'' 0.001) * notional
                 + 2 * cm_get cm ''gas_per_trade'' 0.5))"
  by (auto simp: compute_round_trip_cost_def Let_def)

theorem round_trip_cost_by_tag_witness:
  "compute_round_trip_cost \<lparr>cm_type = Some ''spot'', cm_num = Map.empty\<rparr> 1000 =
     Inl (ValueError ''Unknown cost model type: spot'')
   \<and> compute_round_trip_cost DEFAULT_FUTURES_COST 1000 = Inr 17.5
   \<and> compute_round_trip_cost
        \<lparr>cm_type = Some ''crypto_cex'',
         cm_num = [''maker_fee'' \<mapsto> 0.001, ''taker_fee'' \<mapsto> 0.002, ''slippage_pct'' \<mapsto> 0.001]\<rparr>
        1000 = Inr 5
   \<and> compute_round_trip_cost
        \<lparr>cm_type = Some ''crypto_dex'',
         cm_num = [''maker_fee'' \<mapsto> 0.001, ''taker_fee'' \<mapsto> 0.002, ''slippage_pct'' \<mapsto> 0.001,
                   ''gas_per_trade'' \<mapsto> 0.5]\<rparr>
        1000 = Inr 6"
  using
    round_trip_cost_by_tag [of "\<lparr>cm_type = Some ''spot'', cm_num = Map.empty\<rparr>" "''spot''" 1000]
    round_trip_cost_by_tag [of DEFAULT_FUTURES_COST "''futures''" 1000]
    round_trip_cost_by_tag [of "\<lparr>cm_type = Some ''crypto_cex'',
         cm_num = [''maker_fee'' \<mapsto> 0.001, ''taker_fee'' \<mapsto> 0.002, ''slippage_pct'' \<mapsto> 0.001]\<rparr>"
        "''crypto_cex''" 1000]
    round_trip_cost_by_tag [of "\<lparr>cm_type = Some ''crypto_dex'',
         cm_num = [''maker_fee'' \<mapsto> 0.001, ''taker_fee'' \<mapsto> 0.002, ''slippage_pct'' \<mapsto> 0.001,
                   ''gas_per_trade'' \<mapsto> 0.5]\<rparr>" "''crypto_dex''" 1000]
  by (simp add: DEFAULT_FUTURES_COST_def cm_get_def)

subsection \<open>Trade simulation\<close>

lemma sim_loop_append:
  "sim_loop cm bs s (xs @ ys) = bind_err (sim_loop cm bs s xs) (\<lambda>s'. sim_loop cm bs s' ys)"
proof (induction xs arbitrary: s)
  case Nil
  show ?case by simp
next
  case (Cons i xs)
  show ?case
  proof (cases "sim_step cm bs s i")
    case (Inl e)
    then show ?thesis by simp
  next
    case (Inr s1)
    then show ?thesis by (simp add: Cons.IH)
  qed
qed

lemma sim_loop_snoc:
  "sim_loop cm bs s (xs @ [i]) = bind_err (sim_loop cm bs s xs) (\<lambda>s'. sim_step cm bs s' i)"
proof -
  have "sim_loop cm bs s' [i] = sim_step cm bs s' i" for s'
    by (cases "sim_step cm bs s' i") simp_all
  then show ?thesis by (simp add: sim_loop_append)
qed

lemma position_update_excursions [simp]: "position (update_excursions s b) = position s"
  by (simp add: update_excursions_def Let_def)

lemma position_close:
  "close_position cm s p x = Inr s' \<Longrightarrow> position s' = position s"
  by (auto simp: close_position_def Let_def bind_err_eq_Inr)

lemma position_open [simp]: "position (open_position s sig i p) = sig"
  by (simp add: open_position_def)

lemma sim_step_position:
  assumes "sim_step cm bs s i = Inr s'"
  shows "position s' = bar_signal (bs ! (i - 1))"
  using assms
  by (auto simp: sim_step_def Let_def bind_err_eq_Inr split: if_splits)

lemma cost_ok_total:
  assumes "cost_model_ok cm"
  shows "\<exists>c. compute_round_trip_cost cm x = Inr c"
  using assms
  by (auto simp: cost_model_ok_def compute_round_trip_cost_def Let_def split: option.splits)

lemma close_total:
  assumes "cost_model_ok cm"
  shows "\<exists>s'. close_position cm s p x = Inr s'"
proof -
  obtain c where "compute_round_trip_cost cm \<bar>cur_entry_price s\<bar> = Inr c"
    using cost_ok_total [OF assms] by blast
  then show ?thesis by (simp add: close_position_def Let_def)
qed

lemma sim_step_total:
  assumes "cost_model_ok cm"
  shows "\<exists>s'. sim_step cm bs s i = Inr s'"
proof -
  obtain s1 where "close_position cm s (bar_open (bs ! i)) i = Inr s1"
    using close_total [OF assms] by blast
  then show ?thesis by (simp add: sim_step_def Let_def)
qed

lemma sim_loop_total:
  assumes "cost_model_ok cm"
  shows "\<exists>s'. sim_loop cm bs s is = Inr s'"
proof (induction "is" arbitrary: s)
  case Nil
  show ?case by simp
next
  case (Cons i "is")
  obtain s1 where "sim_step cm bs s i = Inr s1"
    using sim_step_total [OF assms] by blast
  with Cons.IH [of s1] show ?case by simp
qed

lemma state_after_position:
  assumes "1 \<le> i" and "state_after cm df i = Inr s"
  shows "position s = bar_signal (rows df ! (i - 1))"
proof -
  from assms(1) have "[1..<Suc i] = [1..<i] @ [i]" by simp
  with assms(2) obtain s0 where "sim_step cm (rows df) s0 i = Inr s"
    by (auto simp: state_after_def sim_loop_snoc bind_err_eq_Inr simp del: upt_Suc)
  then show ?thesis by (rule sim_step_position)
qed

lemma loop_through_state_after:
  assumes "1 \<le> i" and "i < n"
  shows "sim_loop cm (rows df) sim_init [1..<n] =
           bind_err (state_after cm df i) (\<lambda>s. sim_loop cm (rows df) s [Suc i..<n])"
proof -
  from assms have "[1..<n] = [1..<Suc i] @ [Suc i..<n]"
    by (metis Suc_leI le_SucI upt_add_eq_append le_add_diff_inverse)
  then show ?thesis by (simp add: state_after_def sim_loop_append del: upt_Suc)
qed

lemma sim_step_hold:
  assumes "bar_signal (bs ! (i - 1)) = position s"
  shows "sim_step cm bs s i = Inr (update_excursions s (bs ! i))"
  using assms by (simp add: sim_step_def)

lemma sim_step_enter:
  assumes "position s = 0" and "bar_signal (bs ! (i - 1)) \<noteq> 0"
  shows "sim_step cm bs s i =
           Inr (update_excursions
                  (open_position s (bar_signal (bs ! (i - 1))) i (bar_open (bs ! i))) (bs ! i))"
  using assms by (simp add: sim_step_def Let_def)

lemma flat_prefix:
  assumes "\<forall>j. j + 1 < m \<longrightarrow> bar_signal (bs ! j) = 0"
  shows "sim_loop cm bs sim_init [1..<m] = Inr sim_init"
  using assms
proof (induction m)
  case 0
  show ?case by simp
next
  case (Suc m)
  show ?case
  proof (cases "m = 0")
    case True
    then show ?thesis by simp
  next
    case False
    then have split: "[1..<Suc m] = [1..<m] @ [m]" by simp
    have prev: "sim_loop cm bs sim_init [1..<m] = Inr sim_init"
      using Suc by simp
    have sig: "bar_signal (bs ! (m - 1)) = 0"
      using Suc.prems [rule_format, of "m - 1"] False by simp
    have "sim_step cm bs sim_init m = Inr (update_excursions sim_init (bs ! m))"
      by (rule sim_step_hold) (use sig in \<open>simp add: sim_init_def\<close>)
    also have "update_excursions sim_init (bs ! m) = sim_init"
      by (simp add: update_excursions_def sim_init_def)
    finally show ?thesis
      unfolding split sim_loop_snoc prev by simp
  qed
qed

lemma holding_update:
  assumes "holding bs k v s"
  shows "holding bs k v (update_excursions s b)"
  using assms by (auto simp: holding_def update_excursions_def Let_def)

lemma single_entry_run:
  assumes zeros: "\<forall>j<k. bar_signal (bs ! j) = 0"
    and held: "\<forall>j. k \<le> j \<and> j + 1 < length bs \<longrightarrow> bar_signal (bs ! j) = v"
    and v: "v \<noteq> 0"
    and m: "k + 2 \<le> m" "m \<le> length bs"
  shows "\<exists>s. sim_loop cm bs sim_init [1..<m] = Inr s \<and> holding bs k v s"
  using m
proof (induction m rule: dec_induct)
  case base
  have split: "[1..<k + 2] = [1..<k + 1] @ [k + 1]" by simp
  have prev: "sim_loop cm bs sim_init [1..<k + 1] = Inr sim_init"
    by (rule flat_prefix) (use zeros in simp)
  have sig: "bar_signal (bs ! k) = v"
    using held base by simp
  have step: "sim_step cm bs sim_init (k + 1) =
      Inr (update_excursions (open_position sim_init v (k + 1) (bar_open (bs ! (k + 1))))
             (bs ! (k + 1)))"
    using sim_step_enter [of sim_init bs "k + 1" cm] sig v by (simp add: sim_init_def)
  have "holding bs k v (open_position sim_init v (k + 1) (bar_open (bs ! (k + 1))))"
    using v by (simp add: holding_def open_position_def sim_init_def)
  then have "holding bs k v (update_excursions
      (open_position sim_init v (k + 1) (bar_open (bs ! (k + 1)))) (bs ! (k + 1)))"
    by (rule holding_update)
  then show ?case
    unfolding split sim_loop_snoc prev using step by simp
next
  case (step m)
  then obtain s where s: "sim_loop cm bs sim_init [1..<m] = Inr s" "holding bs k v s"
    by auto
  from step have split: "[1..<Suc m] = [1..<m] @ [m]" by simp
  have sig: "bar_signal (bs ! (m - 1)) = v"
    using held [rule_format, of "m - 1"] step by simp
  have st: "sim_step cm bs s m = Inr (update_excursions s (bs ! m))"
    by (rule sim_step_hold) (use sig s(2) in \<open>simp add: holding_def\<close>)
  show ?case
    unfolding split sim_loop_snoc s(1) using st holding_update [OF s(2)] by simp
qed

lemma single_entry_trades:
  assumes sig: "has_signal df"
    and ok: "cost_model_ok cm"
    and zeros: "\<forall>j<k. bar_signal (rows df ! j) = 0"
    and held: "\<forall>j. k \<le> j \<and> j + 1 < length (rows df) \<longrightarrow> bar_signal (rows df ! j) = v"
    and v: "v \<noteq> 0"
    and k: "k + 1 < length (rows df)"
  shows "\<exists>t. simulate_trades df cm = Inr [t]
           \<and> entry_bar t = k + 1 \<and> entry_price t = bar_open (rows df ! (k + 1))
           \<and> exit_bar t = length (rows df) - 1 \<and> exit_price t = bar_close (last (rows df))
           \<and> side t = (if v = 1 then ''long'' else ''short'')
           \<and> 0 \<le> mfe t \<and> mae t \<le> 0"
proof -
  let ?bs = "rows df"
  from k have ne: "?bs \<noteq> []" by auto
  obtain s where s: "sim_loop cm ?bs sim_init [1..<length ?bs] = Inr s" "holding ?bs k v s"
    using single_entry_run [OF zeros held v, of "length ?bs" cm] k by auto
  obtain c where c: "compute_round_trip_cost cm \<bar>cur_entry_price s\<bar> = Inr c"
    using cost_ok_total [OF ok] by blast
  show ?thesis
    using sig s v ne c
    by (simp add: simulate_trades_def Let_def close_position_def holding_def)
qed

lemma sim_inv_init: "sim_inv m sim_init"
  by (simp add: sim_inv_def sim_init_def)

lemma sim_inv_update:
  assumes "sim_inv m s"
  shows "sim_inv m (update_excursions s b)"
  using assms by (auto simp: sim_inv_def update_excursions_def Let_def)

lemma sim_inv_open:
  assumes "0 \<le> running_mfe s" "running_mae s \<le> 0" "list_all trade_strict (trades s)"
  shows "sim_inv (Suc i) (open_position s sig i p)"
  using assms by (simp add: sim_inv_def open_position_def)

lemma close_position_inv:
  assumes "sim_inv i s" and "position s \<noteq> 0" and "close_position cm s p i = Inr s1"
  shows "0 \<le> running_mfe s1 \<and> running_mae s1 \<le> 0 \<and> list_all trade_strict (trades s1)"
  using assms
  by (auto simp: close_position_def Let_def bind_err_eq_Inr sim_inv_def trade_strict_def)

lemma sim_inv_mono:
  assumes "sim_inv m s" and "m \<le> m'"
  shows "sim_inv m' s"
  using assms by (auto simp: sim_inv_def)

lemma sim_step_inv:
  assumes inv: "sim_inv i s" and step: "sim_step cm bs s i = Inr s'"
  shows "sim_inv (Suc i) s'"
proof (cases "bar_signal (bs ! (i - 1)) = position s")
  case True
  then have "s' = update_excursions s (bs ! i)"
    using step by (simp add: sim_step_hold)
  then show ?thesis
    using sim_inv_update [OF sim_inv_mono [OF inv, of "Suc i"]] by simp
next
  case False
  show ?thesis
  proof (cases "position s = 0")
    case True
    with False step have s': "s' = update_excursions
        (open_position s (bar_signal (bs ! (i - 1))) i (bar_open (bs ! i))) (bs ! i)"
      by (simp add: sim_step_def Let_def)
    have "sim_inv (Suc i) (open_position s (bar_signal (bs ! (i - 1))) i (bar_open (bs ! i)))"
      by (rule sim_inv_open) (use inv in \<open>simp_all add: sim_inv_def\<close>)
    then show ?thesis unfolding s' by (rule sim_inv_update)
  next
    case nz: False
    with False step obtain s1 where
      s1: "close_position cm s (bar_open (bs ! i)) i = Inr s1" and
      s': "s' = update_excursions
        (open_position s1 (bar_signal (bs ! (i - 1))) i (bar_open (bs ! i))) (bs ! i)"
      by (auto simp: sim_step_def Let_def bind_err_eq_Inr)
    have "sim_inv (Suc i) (open_position s1 (bar_signal (bs ! (i - 1))) i (bar_open (bs ! i)))"
      by (rule sim_inv_open) (use close_position_inv [OF inv nz s1] in simp_all)
    then show ?thesis unfolding s' by (rule sim_inv_update)
  qed
qed

lemma sim_loop_inv:
  assumes "sim_loop cm bs sim_init [1..<m] = Inr s"
  shows "sim_inv (max 1 m) s"
  using assms
proof (induction m arbitrary: s)
  case 0
  then show ?case by (simp add: sim_inv_init)
next
  case (Suc m)
  show ?case
  proof (cases "m = 0")
    case True
    with Suc.prems show ?thesis by (simp add: sim_inv_init)
  next
    case False
    then have split: "[1..<Suc m] = [1..<m] @ [m]" by simp
    from Suc.prems obtain s0 where
      s0: "sim_loop cm bs sim_init [1..<m] = Inr s0" and st: "sim_step cm bs s0 m = Inr s"
      unfolding split sim_loop_snoc by (auto simp: bind_err_eq_Inr)
    from Suc.IH [OF s0] False have "sim_inv m s0" by (simp add: max_def)
    from sim_step_inv [OF this st] show ?thesis by (simp add: max_def)
  qed
qed

lemmas sim_eval = simulate_trades_def sim_step_def close_position_def open_position_def
  update_excursions_def sim_init_def compute_round_trip_cost_def cm_get_def
  DEFAULT_FUTURES_COST_def Let_def flat_bar_def

lemma replicate_signals:
  assumes "map bar_signal bs = replicate k 0 @ replicate r v"
  shows "length bs = k + r"
    and "\<forall>j<k. bar_signal (bs ! j) = 0"
    and "\<forall>j. k \<le> j \<and> j < k + r \<longrightarrow> bar_signal (bs ! j) = v"
proof -
  from assms have "length (map bar_signal bs) = k + r" by simp
  then show len: "length bs = k + r" by simp
  have nth: "bar_signal (bs ! j) = (replicate k 0 @ replicate r v) ! j" if "j < k + r" for j
    using that len assms by (metis nth_map)
  show "\<forall>j<k. bar_signal (bs ! j) = 0"
    by (simp add: nth nth_append)
  show "\<forall>j. k \<le> j \<and> j < k + r \<longrightarrow> bar_signal (bs ! j) = v"
    by (auto simp: nth nth_append)
qed

lemma single_flip_trades:
  assumes sig: "has_signal df"
    and ok: "cost_model_ok cm"
    and v: "v \<noteq> 0"
    and flip: "map bar_signal (rows df) = replicate k 0 @ replicate (m + 2) v"
  shows "\<exists>t. simulate_trades df cm = Inr [t]
           \<and> entry_bar t = k + 1 \<and> entry_price t = bar_open (rows df ! (k + 1))
           \<and> exit_bar t = length (rows df) - 1 \<and> exit_price t = bar_close (last (rows df))
           \<and> side t = (if v = 1 then ''long'' else ''short'')
           \<and> 0 \<le> mfe t \<and> mae t \<le> 0"
proof -
  note r = replicate_signals [OF flip]
  have k: "k + 1 < length (rows df)" using r(1) by simp
  have held: "\<forall>j. k \<le> j \<and> j + 1 < length (rows df) \<longrightarrow> bar_signal (rows df ! j) = v"
    using r(1) r(3) by simp
  show ?thesis
    by (rule single_entry_trades [OF sig ok r(2) held v k])
qed

lemma last_bar_flip_no_trade:
  assumes sig: "has_signal df"
    and flip: "map bar_signal (rows df) = replicate k 0 @ [v]"
  shows "simulate_trades df cm = Inr []"
proof -
  from flip have flip': "map bar_signal (rows df) = replicate k 0 @ replicate 1 v" by simp
  note r = replicate_signals [OF flip']
  have "\<forall>j. j + 1 < length (rows df) \<longrightarrow> bar_signal (rows df ! j) = 0"
    using r(1) r(2) by simp
  then have "sim_loop cm (rows df) sim_init [1..<length (rows df)] = Inr sim_init"
    by (rule flat_prefix)
  then show ?thesis
    using sig by (simp add: simulate_trades_def Let_def sim_init_def)
qed

lemma cost_model_ok_default: "cost_model_ok DEFAULT_FUTURES_COST"
  by (simp add: cost_model_ok_def DEFAULT_FUTURES_COST_def)

lemma price_inv_init: "price_inv bs m sim_init"
  by (simp add: price_inv_def sim_init_def)

lemma price_inv_update:
  assumes "price_inv bs m s"
  shows "price_inv bs m (update_excursions s b)"
  using assms by (auto simp: price_inv_def update_excursions_def Let_def)

lemma price_inv_mono:
  assumes "price_inv bs m s" and "m \<le> m'"
  shows "price_inv bs m' s"
  using assms by (auto simp: price_inv_def)

lemma price_inv_open:
  assumes "list_all (loop_trade bs) (trades s)" and "1 \<le> i"
  shows "price_inv bs (Suc i) (open_position s (bar_signal (bs ! (i - 1))) i (bar_open (bs ! i)))"
  using assms by (simp add: price_inv_def open_position_def)

lemma price_inv_close:
  assumes inv: "price_inv bs i s" and nz: "position s \<noteq> 0"
    and ch: "bar_signal (bs ! (i - 1)) \<noteq> position s" and i: "i < length bs"
    and cl: "close_position cm s (bar_open (bs ! i)) i = Inr s1"
  shows "list_all (loop_trade bs) (trades s1)"
  using assms
  by (auto simp: close_position_def Let_def bind_err_eq_Inr price_inv_def loop_trade_def)

lemma sim_step_price_inv:
  assumes inv: "price_inv bs i s" and i: "1 \<le> i" "i < length bs"
    and step: "sim_step cm bs s i = Inr s'"
  shows "price_inv bs (Suc i) s'"
proof (cases "bar_signal (bs ! (i - 1)) = position s")
  case True
  then have "s' = update_excursions s (bs ! i)"
    using step by (simp add: sim_step_hold)
  then show ?thesis
    using price_inv_update [OF price_inv_mono [OF inv, of "Suc i"]] by simp
next
  case False
  show ?thesis
  proof (cases "position s = 0")
    case True
    with False step have s': "s' = update_excursions
        (open_position s (bar_signal (bs ! (i - 1))) i (bar_open (bs ! i))) (bs ! i)"
      by (simp add: sim_step_def Let_def)
    have "price_inv bs (Suc i)
        (open_position s (bar_signal (bs ! (i - 1))) i (bar_open (bs ! i)))"
      by (rule price_inv_open) (use inv i in \<open>simp_all add: price_inv_def\<close>)
    then show ?thesis unfolding s' by (rule price_inv_update)
  next
    case nz: False
    with False step obtain s1 where
      s1: "close_position cm s (bar_open (bs ! i)) i = Inr s1" and
      s': "s' = update_excursions
        (open_position s1 (bar_signal (bs ! (i - 1))) i (bar_open (bs ! i))) (bs ! i)"
      by (auto simp: sim_step_def Let_def bind_err_eq_Inr)
    have "price_inv bs (Suc i)
        (open_position s1 (bar_signal (bs ! (i - 1))) i (bar_open (bs ! i)))"
      by (rule price_inv_open) (use price_inv_close [OF inv nz False i(2) s1] i in simp_all)
    then show ?thesis unfolding s' by (rule price_inv_update)
  qed
qed

lemma sim_loop_price_inv:
  assumes "sim_loop cm bs sim_init [1..<m] = Inr s" and "m \<le> length bs"
  shows "price_inv bs (max 1 m) s
       \<and> position s = (if 2 \<le> m then bar_signal (bs ! (m - 2)) else 0)"
  using assms
proof (induction m arbitrary: s)
  case 0
  then show ?case by (auto simp: price_inv_def sim_init_def)
next
  case (Suc m)
  show ?case
  proof (cases "m = 0")
    case True
    with Suc.prems show ?thesis by (auto simp: price_inv_def sim_init_def)
  next
    case False
    then have split: "[1..<Suc m] = [1..<m] @ [m]" by simp
    from Suc.prems obtain s0 where
      s0: "sim_loop cm bs sim_init [1..<m] = Inr s0" and st: "sim_step cm bs s0 m = Inr s"
      unfolding split sim_loop_snoc by (auto simp: bind_err_eq_Inr)
    from Suc.IH [OF s0] Suc.prems(2) False have "price_inv bs m s0" by (simp add: max_def)
    from sim_step_price_inv [OF this _ _ st] False Suc.prems(2)
    have "price_inv bs (Suc m) s" by simp
    moreover have "position s = bar_signal (bs ! (m - 1))"
      by (rule sim_step_position [OF st])
    ultimately show ?thesis using False by (simp add: max_def numeral_2_eq_2)
  qed
qed

lemma simulate_trades_prices:
  assumes "simulate_trades df cm = Inr ts"
  shows "(final_position (rows df) = 0 \<longrightarrow> list_all (loop_trade (rows df)) ts)
       \<and> (final_position (rows df) \<noteq> 0 \<longrightarrow>
            ts \<noteq> [] \<and> list_all (loop_trade (rows df)) (butlast ts)
            \<and> flush_trade (rows df) (last ts))"
proof -
  let ?bs = "rows df" and ?n = "length (rows df)"
  from assms have sig: "has_signal df"
    by (auto simp: simulate_trades_def split: if_splits)
  with assms obtain s where
    loop: "sim_loop cm ?bs sim_init [1..<?n] = Inr s" and
    fin: "(if position s \<noteq> 0 then
             (if ?bs = [] then Inl IndexError
              else bind_err (close_position cm s (bar_close (last ?bs)) (?n - 1))
                     (\<lambda>s'. Inr (trades s')))
           else Inr (trades s)) = Inr ts"
    by (auto simp: simulate_trades_def Let_def bind_err_eq_Inr)
  from sim_loop_price_inv [OF loop] have
    inv: "price_inv ?bs (max 1 ?n) s" and pos: "position s = final_position ?bs"
    by (simp_all add: final_position_def)
  show ?thesis
  proof (cases "position s = 0")
    case True
    with fin have "ts = trades s" by simp
    with inv True pos show ?thesis by (simp add: price_inv_def)
  next
    case False
    with fin have ne: "?bs \<noteq> []" by (auto split: if_splits)
    with False fin obtain c where
      ts: "ts = trades s @
             [\<lparr>entry_bar = cur_entry_bar s, exit_bar = ?n - 1,
               side = (if position s = 1 then ''long'' else ''short''),
               entry_price = cur_entry_price s, exit_price = bar_close (last ?bs),
               pnl = (if position s = 1 then bar_close (last ?bs) - cur_entry_price s
                      else cur_entry_price s - bar_close (last ?bs)) - c,
               mfe = running_mfe s, mae = running_mae s\<rparr>]"
      by (auto simp: close_position_def Let_def bind_err_eq_Inr)
    from inv False ne have cur: "1 \<le> cur_entry_bar s" "cur_entry_bar s \<le> ?n - 1"
      "bar_signal (?bs ! (cur_entry_bar s - 1)) = position s"
      "cur_entry_price s = bar_open (?bs ! cur_entry_bar s)"
      by (cases ?bs; auto simp: price_inv_def max_def split: if_splits)+
    from inv have tr: "list_all (loop_trade ?bs) (trades s)" by (simp add: price_inv_def)
    show ?thesis
      unfolding ts using False pos cur tr by (simp add: flush_trade_def)
  qed
qed

text \<open>
  Claim C1, counterexample. A single flip to 1 on the last of three bars gives no trade:
  there is no bar after the flip to enter on. And on the frame with a flip at bar 1 of 4,
  a cost model of type \<^verbatim>\<open>spot\<close> makes the simulation raise at the flush, so no
  trade is produced either.
\<close>

theorem lag_flip_on_last_bar_counterexample:
  "simulate_trades last_flip_frame DEFAULT_FUTURES_COST = Inr []
   \<and> simulate_trades flip_frame spot_cost = Inl (ValueError ''Unknown cost model type: spot'')"
  by (simp add: last_flip_frame_def flip_frame_def spot_cost_def sim_eval upt_rec)

text \<open>
  Claim C1, as amended. At every bar \<open>i\<close> with \<open>1 \<le> i \<le> n - 1\<close> that the
  simulation reaches, the position held during bar \<open>i\<close> is the signal of bar
  \<open>i - 1\<close>; with a cost model the simulator accepts every such bar is reached, its
  state being the one the loop of \<open>simulate_trades\<close> passes through. A signal series
  that is 0 before bar \<open>k\<close> and one non-zero value from bar \<open>k\<close> on gives, when
  bar \<open>k + 1\<close> exists and the cost model is accepted, exactly one trade, entered at bar
  \<open>k + 1\<close> at that bar's open; when the flip is on the last bar it gives no trade.
\<close>

theorem simulator_lag_invariant:
  "(\<forall>i s. 1 \<le> i \<and> i < length (rows df) \<and> state_after cm df i = Inr s \<longrightarrow>
       position s = bar_signal (rows df ! (i - 1)))
   \<and> (cost_model_ok cm \<longrightarrow>
        (\<forall>i. 1 \<le> i \<and> i < length (rows df) \<longrightarrow>
           (\<exists>s. state_after cm df i = Inr s
              \<and> position s = bar_signal (rows df ! (i - 1))
              \<and> sim_loop cm (rows df) sim_init [1..<length (rows df)]
                  = sim_loop cm (rows df) s [Suc i..<length (rows df)])))
   \<and> (has_signal df \<and> cost_model_ok cm \<and> v \<noteq> 0
        \<and> map bar_signal (rows df) = replicate k 0 @ replicate (m + 2) v \<longrightarrow>
        (\<exists>t. simulate_trades df cm = Inr [t]
           \<and> entry_bar t = k + 1 \<and> entry_price t = bar_open (rows df ! (k + 1))))
   \<and> (has_signal df \<and> map bar_signal (rows df) = replicate k 0 @ [v] \<longrightarrow>
        simulate_trades df cm = Inr [])"
proof (intro conjI allI impI)
  fix i s
  assume "1 \<le> i \<and> i < length (rows df) \<and> state_after cm df i = Inr s"
  then show "position s = bar_signal (rows df ! (i - 1))"
    using state_after_position [of i cm df s] by simp
next
  fix i
  assume ok: "cost_model_ok cm" and i: "1 \<le> i \<and> i < length (rows df)"
  obtain s where s: "state_after cm df i = Inr s"
    using sim_loop_total [OF ok] unfolding state_after_def by blast
  have pos: "position s = bar_signal (rows df ! (i - 1))"
    using state_after_position [of i cm df s] i s by simp
  have "sim_loop cm (rows df) sim_init [1..<length (rows df)]
          = sim_loop cm (rows df) s [Suc i..<length (rows df)]"
    using loop_through_state_after [of i "length (rows df)" cm df] i s by simp
  with s pos show "\<exists>s. state_after cm df i = Inr s
      \<and> position s = bar_signal (rows df ! (i - 1))
      \<and> sim_loop cm (rows df) sim_init [1..<length (rows df)]
          = sim_loop cm (rows df) s [Suc i..<length (rows df)]"
    by blast
next
  assume "has_signal df \<and> cost_model_ok cm \<and> v \<noteq> 0
    \<and> map bar_signal (rows df) = replicate k 0 @ replicate (m + 2) v"
  then show "\<exists>t. simulate_trades df cm = Inr [t]
      \<and> entry_bar t = k + 1 \<and> entry_price t = bar_open (rows df ! (k + 1))"
    using single_flip_trades [of df cm v k m] by blast
next
  assume "has_signal df \<and> map bar_signal (rows df) = replicate k 0 @ [v]"
  then show "simulate_trades df cm = Inr []"
    using last_bar_flip_no_trade [of df k v cm] by blast
qed

theorem simulator_lag_invariant_witness:
  "cost_model_ok DEFAULT_FUTURES_COST
   \<and> (\<exists>s. state_after DEFAULT_FUTURES_COST flip_frame 2 = Inr s \<and> position s = 1)
   \<and> (\<exists>t. simulate_trades flip_frame DEFAULT_FUTURES_COST = Inr [t]
          \<and> entry_bar t = 2 \<and> entry_price t = 99)
   \<and> simulate_trades last_flip_frame DEFAULT_FUTURES_COST = Inr []"
proof -
  note T = simulator_lag_invariant
    [where df = flip_frame and cm = DEFAULT_FUTURES_COST and v = 1 and k = 1 and m = 1]
  note T' = simulator_lag_invariant
    [where df = last_flip_frame and cm = DEFAULT_FUTURES_COST and v = 1 and k = 2]
  have "1 \<le> (2::nat) \<and> 2 < length (rows flip_frame)"
    by (simp add: flip_frame_def)
  with T cost_model_ok_default have "\<exists>s. state_after DEFAULT_FUTURES_COST flip_frame 2 = Inr s
      \<and> position s = bar_signal (rows flip_frame ! (2 - 1))"
    by blast
  moreover have "bar_signal (rows flip_frame ! (2 - 1)) = 1"
    by (simp add: flip_frame_def flat_bar_def)
  ultimately have p1:
    "\<exists>s. state_after DEFAULT_FUTURES_COST flip_frame 2 = Inr s \<and> position s = 1"
    by simp
  have "has_signal flip_frame \<and> cost_model_ok DEFAULT_FUTURES_COST \<and> (1::int) \<noteq> 0
      \<and> map bar_signal (rows flip_frame) = replicate 1 0 @ replicate (1 + 2) 1"
    by (simp add: flip_frame_def flat_bar_def numeral_3_eq_3 cost_model_ok_default)
  with T have "\<exists>t. simulate_trades flip_frame DEFAULT_FUTURES_COST = Inr [t]
      \<and> entry_bar t = 1 + 1 \<and> entry_price t = bar_open (rows flip_frame ! (1 + 1))"
    by blast
  moreover have "bar_open (rows flip_frame ! (1 + 1)) = 99"
    by (simp add: flip_frame_def flat_bar_def)
  ultimately have p2: "\<exists>t. simulate_trades flip_frame DEFAULT_FUTURES_COST = Inr [t]
      \<and> entry_bar t = 2 \<and> entry_price t = 99"
    by (simp add: numeral_2_eq_2)
  have "has_signal last_flip_frame
      \<and> map bar_signal (rows last_flip_frame) = replicate 2 0 @ [1]"
    by (simp add: last_flip_frame_def flat_bar_def numeral_2_eq_2)
  with T' have p3: "simulate_trades last_flip_frame DEFAULT_FUTURES_COST = Inr []"
    by blast
  from cost_model_ok_default p1 p2 p3 show ?thesis by blast
qed

text \<open>
  Claim C2, counterexample. The series 0, 1, 1, 1, 0 is the lag-applied one: the position
  held on each bar, the signal column being 1, 1, 1, 0 on bars 0 to 3. The trade is then
  entered at bar 1's open, 101, and exited at bar 4's open as claimed, but bar 4's open
  is 105 (102 is bar 3's price), so the net profit is (105 - 101) - 17.5 = -13.5, not
  -16.5. Read as the signal column itself, the series gives a trade entered at bar 2 at
  99 and flushed at 105 with net profit -11.5: the claimed numbers hold on neither
  reading.
\<close>

theorem round_trip_scenario_counterexample:
  "simulate_trades scenario_lagged_frame DEFAULT_FUTURES_COST =
     Inr [\<lparr>entry_bar = 1, exit_bar = 4, side = ''long'', entry_price = 101, exit_price = 105,
           pnl = - 13.5, mfe = 1, mae = - 2\<rparr>]
   \<and> bar_open (rows scenario_lagged_frame ! 4) = 105
   \<and> (105::real) \<noteq> 102 \<and> (- 13.5::real) \<noteq> - 16.5
   \<and> simulate_trades scenario_frame DEFAULT_FUTURES_COST =
     Inr [\<lparr>entry_bar = 2, exit_bar = 4, side = ''long'', entry_price = 99, exit_price = 105,
           pnl = - 11.5, mfe = 6, mae = 0\<rparr>]
   \<and> (- 11.5::real) \<noteq> - 16.5"
  by (simp add: scenario_lagged_frame_def scenario_frame_def sim_eval upt_rec)

text \<open>
  Claim C2, as amended. With prices 100, 101, 99, 102, 105 (opens equal to closes, any
  highs and lows), the lag-applied series 0, 1, 1, 1, 0 (a signal column 1, 1, 1, 0 on
  bars 0 to 3, bar 4's signal being never read) and the futures cost model, the simulator
  gives exactly one trade: long, entered at bar 1's open 101 and exited at bar 4's open,
  which is 105, with net profit (105 - 101) - (2 * 2.5 + 2 * 0.5 * 12.5) = -13.5.
\<close>

theorem round_trip_scenario:
  "simulate_trades
     \<lparr>has_signal = True,
      rows = [\<lparr>bar_open = 100, bar_high = h0, bar_low = l0, bar_close = 100, bar_signal = 1\<rparr>,
              \<lparr>bar_open = 101, bar_high = h1, bar_low = l1, bar_close = 101, bar_signal = 1\<rparr>,
              \<lparr>bar_open = 99, bar_high = h2, bar_low = l2, bar_close = 99, bar_signal = 1\<rparr>,
              \<lparr>bar_open = 102, bar_high = h3, bar_low = l3, bar_close = 102, bar_signal = 0\<rparr>,
              \<lparr>bar_open = 105, bar_high = h4, bar_low = l4, bar_close = 105, bar_signal = s4\<rparr>]\<rparr>
     DEFAULT_FUTURES_COST =
   Inr [\<lparr>entry_bar = 1, exit_bar = 4, side = ''long'', entry_price = 101, exit_price = 105,
         pnl = (105 - 101) - (2 * 2.5 + 2 * 0.5 * 12.5),
         mfe = max (max (max 0 (h1 - 101)) (h2 - 101)) (h3 - 101),
         mae = min (min (min 0 (l1 - 101)) (l2 - 101)) (l3 - 101)\<rparr>]"
  by (simp add: sim_eval upt_rec)

text \<open>
  Claim C3, counterexample. The series 0, 1 goes non-zero and never returns to 0, and
  gives no trade at all: the signal of the last bar is never acted on.
\<close>

theorem flush_last_bar_flip_counterexample:
  "simulate_trades late_frame DEFAULT_FUTURES_COST = Inr []"
  by (simp add: late_frame_def sim_eval upt_rec)

text \<open>
  Claim C3, as amended. For a cost model the simulator accepts and a signal series that
  is 0 on its first \<open>k\<close> bars and one non-zero value \<open>v\<close> on all the others: when
  at least two bars carry \<open>v\<close>, the simulator gives exactly one trade, entered at bar
  \<open>k + 1\<close> at that bar's open and closed at the last bar, at its close; when only the
  last bar carries \<open>v\<close>, it gives no trade. And for every frame and signal series: every
  trade is entered at the open of the bar that follows a non-zero signal; every trade
  closed inside the series exits at the open of the bar that follows the changed signal;
  a trade closed at the final bar's close exists exactly when the signal of the bar
  before the last is non-zero, and it is the last trade.
\<close>

theorem end_of_series_flush:
  "(has_signal df \<and> cost_model_ok cm \<and> v \<noteq> 0
      \<and> map bar_signal (rows df) = replicate k 0 @ replicate (m + 2) v \<longrightarrow>
      (\<exists>t. simulate_trades df cm = Inr [t]
         \<and> exit_bar t = length (rows df) - 1
         \<and> exit_price t = bar_close (last (rows df))
         \<and> entry_bar t = k + 1
         \<and> entry_price t = bar_open (rows df ! (k + 1))))
   \<and> (has_signal df \<and> map bar_signal (rows df) = replicate k 0 @ [v] \<longrightarrow>
        simulate_trades df cm = Inr [])
   \<and> (simulate_trades df cm = Inr ts \<longrightarrow>
        (final_position (rows df) = 0 \<longrightarrow> list_all (loop_trade (rows df)) ts)
        \<and> (final_position (rows df) \<noteq> 0 \<longrightarrow>
             ts \<noteq> [] \<and> list_all (loop_trade (rows df)) (butlast ts)
             \<and> flush_trade (rows df) (last ts)))"
proof -
  have single: "has_signal df \<and> cost_model_ok cm \<and> v \<noteq> 0
      \<and> map bar_signal (rows df) = replicate k 0 @ replicate (m + 2) v \<longrightarrow>
      (\<exists>t. simulate_trades df cm = Inr [t]
         \<and> exit_bar t = length (rows df) - 1
         \<and> exit_price t = bar_close (last (rows df))
         \<and> entry_bar t = k + 1
         \<and> entry_price t = bar_open (rows df ! (k + 1)))"
    using single_flip_trades [of df cm v k m] by blast
  have late: "has_signal df \<and> map bar_signal (rows df) = replicate k 0 @ [v] \<longrightarrow>
        simulate_trades df cm = Inr []"
    using last_bar_flip_no_trade [of df k v cm] by blast
  have prices: "simulate_trades df cm = Inr ts \<longrightarrow>
        (final_position (rows df) = 0 \<longrightarrow> list_all (loop_trade (rows df)) ts)
        \<and> (final_position (rows df) \<noteq> 0 \<longrightarrow>
             ts \<noteq> [] \<and> list_all (loop_trade (rows df)) (butlast ts)
             \<and> flush_trade (rows df) (last ts))"
    by (rule impI) (rule simulate_trades_prices)
  show ?thesis by (intro conjI single late prices)
qed

lemma reversal_eval:
  "simulate_trades reversal_frame DEFAULT_FUTURES_COST =
     Inr [\<lparr>entry_bar = 1, exit_bar = 3, side = ''long'', entry_price = 101, exit_price = 102,
           pnl = - 16.5, mfe = 0, mae = - 2\<rparr>,
          \<lparr>entry_bar = 3, exit_bar = 4, side = ''short'', entry_price = 102, exit_price = 104,
           pnl = - 19.5, mfe = 0, mae = - 2\<rparr>]"
  by (simp add: reversal_frame_def sim_eval upt_rec)

theorem end_of_series_flush_witness:
  "(\<exists>t. simulate_trades flip_frame DEFAULT_FUTURES_COST = Inr [t]
          \<and> exit_bar t = 3 \<and> exit_price t = 102 \<and> entry_bar t = 2 \<and> entry_price t = 99)
   \<and> simulate_trades late_frame DEFAULT_FUTURES_COST = Inr []
   \<and> final_position (rows reversal_frame) = - 1
   \<and> loop_trade (rows reversal_frame)
        \<lparr>entry_bar = 1, exit_bar = 3, side = ''long'', entry_price = 101, exit_price = 102,
         pnl = - 16.5, mfe = 0, mae = - 2\<rparr>
   \<and> flush_trade (rows reversal_frame)
        \<lparr>entry_bar = 3, exit_bar = 4, side = ''short'', entry_price = 102, exit_price = 104,
         pnl = - 19.5, mfe = 0, mae = - 2\<rparr>
   \<and> bar_open (rows reversal_frame ! 3) = 102
   \<and> bar_close (last (rows reversal_frame)) = 104"
proof -
  note T1 = end_of_series_flush
    [where df = flip_frame and cm = DEFAULT_FUTURES_COST and v = 1 and k = 1 and m = 1]
  note T2 = end_of_series_flush
    [where df = late_frame and cm = DEFAULT_FUTURES_COST and v = 1 and k = 1]
  note T3 = end_of_series_flush
    [where df = reversal_frame and cm = DEFAULT_FUTURES_COST
       and ts = "[\<lparr>entry_bar = 1, exit_bar = 3, side = ''long'', entry_price = 101,
                  exit_price = 102, pnl = - 16.5, mfe = 0, mae = - 2\<rparr>,
                 \<lparr>entry_bar = 3, exit_bar = 4, side = ''short'', entry_price = 102,
                  exit_price = 104, pnl = - 19.5, mfe = 0, mae = - 2\<rparr>]"]
  have "has_signal flip_frame \<and> cost_model_ok DEFAULT_FUTURES_COST \<and> (1::int) \<noteq> 0
      \<and> map bar_signal (rows flip_frame) = replicate 1 0 @ replicate (1 + 2) 1"
    by (simp add: flip_frame_def flat_bar_def numeral_3_eq_3 cost_model_ok_default)
  with T1 have "\<exists>t. simulate_trades flip_frame DEFAULT_FUTURES_COST = Inr [t]
      \<and> exit_bar t = length (rows flip_frame) - 1
      \<and> exit_price t = bar_close (last (rows flip_frame))
      \<and> entry_bar t = 1 + 1
      \<and> entry_price t = bar_open (rows flip_frame ! (1 + 1))"
    by blast
  moreover have "bar_open (rows flip_frame ! (1 + 1)) = 99"
    and "bar_close (last (rows flip_frame)) = 102"
    and "length (rows flip_frame) - 1 = 3"
    by (simp_all add: flip_frame_def flat_bar_def)
  ultimately have p1: "\<exists>t. simulate_trades flip_frame DEFAULT_FUTURES_COST = Inr [t]
      \<and> exit_bar t = 3 \<and> exit_price t = 102 \<and> entry_bar t = 2 \<and> entry_price t = 99"
    by (simp add: numeral_2_eq_2)
  have "has_signal late_frame \<and> map bar_signal (rows late_frame) = replicate 1 0 @ [1]"
    by (simp add: late_frame_def flat_bar_def)
  with T2 have p2: "simulate_trades late_frame DEFAULT_FUTURES_COST = Inr []"
    by blast
  have fp: "final_position (rows reversal_frame) = - 1"
    by (simp add: final_position_def reversal_frame_def flat_bar_def)
  have "final_position (rows reversal_frame) \<noteq> 0" using fp by simp
  with T3 reversal_eval have
    "list_all (loop_trade (rows reversal_frame))
       (butlast [\<lparr>entry_bar = 1, exit_bar = 3, side = ''long'', entry_price = 101,
                  exit_price = 102, pnl = - 16.5, mfe = 0, mae = - 2\<rparr>,
                 \<lparr>entry_bar = 3, exit_bar = 4, side = ''short'', entry_price = 102,
                  exit_price = 104, pnl = - 19.5, mfe = 0, mae = - 2\<rparr>])
     \<and> flush_trade (rows reversal_frame)
       (last [\<lparr>entry_bar = 1, exit_bar = 3, side = ''long'', entry_price = 101,
                  exit_price = 102, pnl = - 16.5, mfe = 0, mae = - 2\<rparr>,
                 \<lparr>entry_bar = 3, exit_bar = 4, side = ''short'', entry_price = 102,
                  exit_price = 104, pnl = - 19.5, mfe = 0, mae = - 2\<rparr>])"
    by blast
  then have p3: "loop_trade (rows reversal_frame)
        \<lparr>entry_bar = 1, exit_bar = 3, side = ''long'', entry_price = 101, exit_price = 102,
         pnl = - 16.5, mfe = 0, mae = - 2\<rparr>
     \<and> flush_trade (rows reversal_frame)
        \<lparr>entry_bar = 3, exit_bar = 4, side = ''short'', entry_price = 102, exit_price = 104,
         pnl = - 19.5, mfe = 0, mae = - 2\<rparr>"
    by simp
  have p4: "bar_open (rows reversal_frame ! 3) = 102"
    "bar_close (last (rows reversal_frame)) = 104"
    by (simp_all add: reversal_frame_def flat_bar_def)
  from p1 p2 fp p3 p4 show ?thesis by blast
qed

text \<open>
  Claim C4, counterexample. With signals 1, 1 on two bars the position is opened on the
  last bar and force-closed on it: the trade has entry bar 1 and exit bar 1, so the entry
  bar is not strictly less than the exit bar.
\<close>

theorem entry_equals_exit_counterexample:
  "simulate_trades last_entry_frame DEFAULT_FUTURES_COST =
     Inr [\<lparr>entry_bar = 1, exit_bar = 1, side = ''long'', entry_price = 101, exit_price = 101,
           pnl = - 17.5, mfe = 0, mae = 0\<rparr>]
   \<and> \<not> (1::nat) < 1"
  by (simp add: last_entry_frame_def sim_eval upt_rec)

text \<open>
  Claim C4, as amended. Every trade the simulator produces, for any frame and any integer
  signals, has a maximum favourable excursion \<open>\<ge> 0\<close>, a maximum adverse excursion
  \<open>\<le> 0\<close>, and an entry bar strictly before its exit bar, except that the last trade
  of the list can have its entry bar equal to its exit bar, both being the last bar (a
  position opened on the last bar and closed by the end-of-series flush).
\<close>

theorem trade_record_invariant:
  assumes "simulate_trades df cm = Inr ts"
  shows "\<forall>t\<in>set ts. 0 \<le> mfe t \<and> mae t \<le> 0
           \<and> (entry_bar t < exit_bar t
               \<or> (entry_bar t = exit_bar t \<and> exit_bar t = length (rows df) - 1 \<and> t = last ts))"
proof -
  let ?bs = "rows df" and ?n = "length (rows df)"
  from assms have sig: "has_signal df"
    by (auto simp: simulate_trades_def split: if_splits)
  with assms obtain s where
    loop: "sim_loop cm ?bs sim_init [1..<?n] = Inr s" and
    fin: "(if position s \<noteq> 0 then
             (if ?bs = [] then Inl IndexError
              else bind_err (close_position cm s (bar_close (last ?bs)) (?n - 1))
                     (\<lambda>s'. Inr (trades s')))
           else Inr (trades s)) = Inr ts"
    by (auto simp: simulate_trades_def Let_def bind_err_eq_Inr)
  have inv: "sim_inv (max 1 ?n) s" by (rule sim_loop_inv [OF loop])
  show ?thesis
  proof (cases "position s = 0")
    case True
    with fin have "ts = trades s" by simp
    with inv show ?thesis
      by (auto simp: sim_inv_def list_all_iff trade_strict_def)
  next
    case False
    with fin have ne: "?bs \<noteq> []" by (auto split: if_splits)
    with False fin obtain c where
      ts: "ts = trades s @
             [\<lparr>entry_bar = cur_entry_bar s, exit_bar = ?n - 1,
               side = (if position s = 1 then ''long'' else ''short''),
               entry_price = cur_entry_price s, exit_price = bar_close (last ?bs),
               pnl = (if position s = 1 then bar_close (last ?bs) - cur_entry_price s
                      else cur_entry_price s - bar_close (last ?bs)) - c,
               mfe = running_mfe s, mae = running_mae s\<rparr>]"
      by (auto simp: close_position_def Let_def bind_err_eq_Inr)
    from inv False ne have "cur_entry_bar s \<le> ?n - 1"
      by (cases ?bs) (auto simp: sim_inv_def max_def split: if_splits)
    with inv show ?thesis
      unfolding ts by (auto simp: sim_inv_def list_all_iff trade_strict_def)
  qed
qed

lemma last_entry_eval:
  "simulate_trades last_entry_frame DEFAULT_FUTURES_COST =
     Inr [\<lparr>entry_bar = 1, exit_bar = 1, side = ''long'', entry_price = 101, exit_price = 101,
           pnl = - 17.5, mfe = 0, mae = 0\<rparr>]"
  by (simp add: last_entry_frame_def sim_eval upt_rec)

lemma scenario_eval:
  "simulate_trades scenario_frame DEFAULT_FUTURES_COST =
     Inr [\<lparr>entry_bar = 2, exit_bar = 4, side = ''long'', entry_price = 99, exit_price = 105,
           pnl = - 11.5, mfe = 6, mae = 0\<rparr>]"
  by (simp add: scenario_frame_def sim_eval upt_rec)

theorem trade_record_invariant_witness:
  "simulate_trades scenario_frame DEFAULT_FUTURES_COST =
     Inr [\<lparr>entry_bar = 2, exit_bar = 4, side = ''long'', entry_price = 99, exit_price = 105,
           pnl = - 11.5, mfe = 6, mae = 0\<rparr>]
   \<and> (0::real) \<le> 6 \<and> (0::real) \<le> 0 \<and> (2::nat) < 4
   \<and> simulate_trades last_entry_frame DEFAULT_FUTURES_COST =
     Inr [\<lparr>entry_bar = 1, exit_bar = 1, side = ''long'', entry_price = 101, exit_price = 101,
           pnl = - 17.5, mfe = 0, mae = 0\<rparr>]
   \<and> (1::nat) = length (rows last_entry_frame) - 1"
  using trade_record_invariant [OF scenario_eval] trade_record_invariant [OF last_entry_eval]
    scenario_eval last_entry_eval
  by simp

subsection \<open>Metrics\<close>

lemma compute_metrics_total: "\<exists>m. compute_metrics ts = Inr m"
proof (cases "ts = []")
  case True
  then show ?thesis by (simp add: compute_metrics_def)
next
  case False
  then have "0 < length ts" by simp
  then show ?thesis
    using False by (simp add: compute_metrics_def Let_def py_truediv_pos)
qed

lemma no_losers:
  assumes "list_all (\<lambda>t. 0 \<le> pnl t) ts"
  shows "filter (\<lambda>p. p < 0) (map pnl ts) = []"
  using assms by (induction ts) auto

text \<open>
  Claim C9. On the empty trade list \<open>compute_metrics\<close> returns, without raising, the
  bundle whose every field is zero.
\<close>

theorem compute_metrics_empty:
  "compute_metrics [] =
     Inr \<lparr>total_pnl = 0, sharpe_ratio = 0, max_drawdown = 0, max_drawdown_dollars = 0,
          win_rate = 0, profit_factor = Fin 0, total_trades = 0, avg_trade_pnl = 0,
          avg_winner = 0, avg_loser = 0, max_consecutive_losses = 0, avg_holding_bars = 0,
          expectancy = 0, calmar_ratio = 0\<rparr>"
  by (simp add: compute_metrics_def BacktestMetrics_default_def)

text \<open>
  Claim C8. For a trade list in which no trade loses and some trade wins,
  \<open>compute_metrics\<close> returns a bundle (no division raises) whose profit factor is
  infinite.
\<close>

theorem profit_factor_infinite:
  assumes "list_all (\<lambda>t. 0 \<le> pnl t) ts" and "list_ex (\<lambda>t. 0 < pnl t) ts"
  shows "\<exists>m. compute_metrics ts = Inr m \<and> profit_factor m = PInf"
proof -
  from assms(2) have ne: "ts \<noteq> []" by auto
  then have len: "0 < length ts" by simp
  have losers: "filter (\<lambda>p. p < 0) (map pnl ts) = []"
    by (rule no_losers [OF assms(1)])
  show ?thesis
    using ne len by (simp add: compute_metrics_def Let_def py_truediv_pos losers)
qed

theorem profit_factor_infinite_witness:
  "list_all (\<lambda>t. 0 \<le> pnl t) [won 5, won 0] \<and> list_ex (\<lambda>t. 0 < pnl t) [won 5, won 0]
   \<and> (\<exists>m. compute_metrics [won 5, won 0] = Inr m \<and> profit_factor m = PInf)"
proof -
  have h1: "list_all (\<lambda>t. 0 \<le> pnl t) [won 5, won 0]" by (simp add: won_def)
  have h2: "list_ex (\<lambda>t. 0 < pnl t) [won 5, won 0]" by (simp add: won_def)
  from profit_factor_infinite [OF h1 h2] h1 h2 show ?thesis by blast
qed

subsection \<open>Grading\<close>

lemma flags_simps:
  "sharpe_above_3 (check_overfit_flags m monthly) = (3 < sharpe_ratio m)"
  "win_rate_above_80 (check_overfit_flags m monthly) = (0.8 < win_rate m)"
  "no_losing_months (check_overfit_flags m monthly) =
     (filter (\<lambda>r. month_pnl r < 0) monthly = [] \<and> 3 < length monthly)"
  by (auto simp: check_overfit_flags_def Let_def)

lemma grade_eq_table: "grade m monthly = grade_table m monthly"
  unfolding grade_def grade_result_def grade_table_def flags_simps
  by auto

lemma grade_passed: "fst (grade m monthly) = (snd (grade m monthly) \<noteq> ''rejected'')"
  by (simp add: grade_def grade_result_def)

lemma graded_simps [simp]:
  "sharpe_ratio (graded sh wr n dd) = sh"
  "win_rate (graded sh wr n dd) = wr"
  "total_trades (graded sh wr n dd) = n"
  "max_drawdown (graded sh wr n dd) = dd"
  by (simp_all add: graded_def)

text \<open>
  Claim C5. The grade is a function of the metrics and the monthly returns, and it is the
  decision table read top to bottom: rejected for a Sharpe ratio above 3.0, else for a
  win rate above 0.80, else for fewer than 30 trades, else for no losing month among more
  than 3 months; else under review for a Sharpe ratio in [1.0, 1.5], or a drawdown above
  0.15, or 30 to 100 trades; else good for a Sharpe ratio in (1.5, 3.0], a drawdown of at
  most 0.15, more than 100 trades and a win rate of at most 0.80; else under review. The
  result passes exactly when it is not rejected. The values on each threshold fall on the
  documented side.
\<close>

theorem grade_decision_table:
  "grade m monthly = grade_table m monthly
   \<and> fst (grade m monthly) = (snd (grade m monthly) \<noteq> ''rejected'')
   \<and> grade (graded 3.0 0.5 101 0.1) [] = (True, ''good'')
   \<and> grade (graded 3.01 0.5 101 0.1) [] = (False, ''rejected'')
   \<and> grade (graded 1.5 0.5 101 0.1) [] = (True, ''under_review'')
   \<and> grade (graded 1.51 0.5 101 0.1) [] = (True, ''good'')
   \<and> grade (graded 1.0 0.5 101 0.1) [] = (True, ''under_review'')
   \<and> grade (graded 0.99 0.5 101 0.1) [] = (True, ''under_review'')
   \<and> grade (graded 2 0.80 101 0.1) [] = (True, ''good'')
   \<and> grade (graded 2 0.81 101 0.1) [] = (False, ''rejected'')
   \<and> grade (graded 2 0.5 29 0.1) [] = (False, ''rejected'')
   \<and> grade (graded 2 0.5 30 0.1) [] = (True, ''under_review'')
   \<and> grade (graded 2 0.5 100 0.1) [] = (True, ''under_review'')
   \<and> grade (graded 2 0.5 101 0.1) [] = (True, ''good'')
   \<and> grade (graded 2 0.5 101 0.15) [] = (True, ''good'')
   \<and> grade (graded 2 0.5 101 0.16) [] = (True, ''under_review'')
   \<and> grade (graded 2 0.5 101 0.1) (replicate 4 \<lparr>month = ''2024-01'', month_pnl = 10\<rparr>)
       = (False, ''rejected'')
   \<and> grade (graded 2 0.5 101 0.1) (replicate 3 \<lparr>month = ''2024-01'', month_pnl = 10\<rparr>)
       = (True, ''good'')"
proof -
  have table: "grade m monthly = grade_table m monthly"
    by (rule grade_eq_table)
  have passed: "fst (grade m monthly) = (snd (grade m monthly) \<noteq> ''rejected'')"
    by (rule grade_passed)
  have bounds:
    "grade (graded 3.0 0.5 101 0.1) [] = (True, ''good'')"
    "grade (graded 3.01 0.5 101 0.1) [] = (False, ''rejected'')"
    "grade (graded 1.5 0.5 101 0.1) [] = (True, ''under_review'')"
    "grade (graded 1.51 0.5 101 0.1) [] = (True, ''good'')"
    "grade (graded 1.0 0.5 101 0.1) [] = (True, ''under_review'')"
    "grade (graded 0.99 0.5 101 0.1) [] = (True, ''under_review'')"
    "grade (graded 2 0.80 101 0.1) [] = (True, ''good'')"
    "grade (graded 2 0.81 101 0.1) [] = (False, ''rejected'')"
    "grade (graded 2 0.5 29 0.1) [] = (False, ''rejected'')"
    "grade (graded 2 0.5 30 0.1) [] = (True, ''under_review'')"
    "grade (graded 2 0.5 100 0.1) [] = (True, ''under_review'')"
    "grade (graded 2 0.5 101 0.1) [] = (True, ''good'')"
    "grade (graded 2 0.5 101 0.15) [] = (True, ''good'')"
    "grade (graded 2 0.5 101 0.16) [] = (True, ''under_review'')"
    by (simp_all add: grade_def grade_result_def flags_simps)
  have months:
    "grade (graded 2 0.5 101 0.1) (replicate 4 \<lparr>month = ''2024-01'', month_pnl = 10\<rparr>)
       = (False, ''rejected'')"
    "grade (graded 2 0.5 101 0.1) (replicate 3 \<lparr>month = ''2024-01'', month_pnl = 10\<rparr>)
       = (True, ''good'')"
    by (simp_all add: grade_def grade_result_def flags_simps)
  from table passed bounds months show ?thesis by simp
qed

subsection \<open>Walk-forward analysis\<close>

lemma flat_frame_no_trades:
  assumes "has_signal df" and "\<forall>b\<in>set (rows df). bar_signal b = 0"
  shows "simulate_trades df cm = Inr []"
proof -
  have "\<forall>j. j + 1 < length (rows df) \<longrightarrow> bar_signal (rows df ! j) = 0"
    using assms(2) by simp
  then have "sim_loop cm (rows df) sim_init [1..<length (rows df)] = Inr sim_init"
    by (rule flat_prefix)
  then show ?thesis
    using assms(1) by (simp add: simulate_trades_def Let_def sim_init_def)
qed

lemma py_round_zero [simp]: "py_round 0 nd = 0"
  by (simp add: py_round_def round_half_even_def)

lemma run_fold_flat:
  "run_fold flat_strategy df cm train test L n s =
     Inr \<lparr>fold_no = n, train_range = (s, s + train),
          test_range = (s + train, min (s + train + test) L),
          in_sample = BacktestMetrics_default, out_of_sample = BacktestMetrics_default,
          oos_decay_pct = 0\<rparr>"
proof -
  have sim: "simulate_trades
      \<lparr>has_signal = True, rows = map (\<lambda>b. b\<lparr>bar_signal := 0\<rparr>) bs\<rparr> cm = Inr []" for bs
    by (rule flat_frame_no_trades) simp_all
  have met: "compute_metrics [] = Inr BacktestMetrics_default"
    by (simp add: compute_metrics_def)
  show ?thesis
    by (simp add: run_fold_def flat_strategy_def Let_def sim met BacktestMetrics_default_def)
qed

lemma wf_loop_Some_cond:
  assumes "wf_loop strat df cm train test step L num start acc = Some y"
  shows "\<not> (step \<le> 0 \<and> start + train + test \<le> L
            \<and> (\<forall>n s. \<exists>f. run_fold strat df cm train test L n s = Inr f))"
proof (rule wf_loop.raw_induct [where P = "\<lambda>strat df cm train test step L num start acc y.
        \<not> (step \<le> 0 \<and> start + train + test \<le> L
            \<and> (\<forall>n s. \<exists>f. run_fold strat df cm train test L n s = Inr f))", OF _ assms],
    goal_cases)
  case (1 loop strat df cm train test step L num start acc y)
  show ?case
  proof
    assume c: "step \<le> 0 \<and> start + train + test \<le> L
            \<and> (\<forall>n s. \<exists>f. run_fold strat df cm train test L n s = Inr f)"
    then obtain f where f: "run_fold strat df cm train test L (num + 1) start = Inr f"
      by blast
    with c 1(2) have "loop strat df cm train test step L (num + 1) (start + step) (acc @ [f])
        = Some y"
      by simp
    from 1(1) [OF this] c show False by simp
  qed
qed

lemma wf_loop_diverges:
  assumes "step \<le> 0" and "start + train + test \<le> L"
    and "\<forall>n s. \<exists>f. run_fold strat df cm train test L n s = Inr f"
  shows "wf_loop strat df cm train test step L num start acc = None"
proof (cases "wf_loop strat df cm train test step L num start acc")
  case None
  then show ?thesis .
next
  case (Some y)
  from wf_loop_Some_cond [OF Some] assms show ?thesis by blast
qed

lemma fold_count_step:
  assumes "0 < step" and "start + train + test \<le> L"
  shows "fold_count L train test step start = Suc (fold_count L train test step (start + step))"
proof (cases "start + step + train + test \<le> L")
  case True
  have "(L - start - train - test) div step = (L - (start + step) - train - test) div step + 1"
  proof -
    have "L - start - train - test = (L - (start + step) - train - test) + step" by simp
    then show ?thesis using assms(1) by (simp only: div_add_self2)
  qed
  moreover have "0 \<le> (L - (start + step) - train - test) div step"
    using True assms(1) by (simp add: pos_imp_zdiv_nonneg_iff)
  ultimately show ?thesis
    using True assms(2) by (simp add: fold_count_def add.commute add.left_commute nat_add_distrib)
next
  case False
  then have "(L - start - train - test) div step = 0"
    using assms by (simp add: div_pos_pos_trivial)
  then show ?thesis
    using False assms(2) by (simp add: fold_count_def add.commute add.left_commute)
qed

lemma iloc_rows:
  assumes "0 \<le> a" and "a \<le> b" and "b \<le> int (length (rows df))"
  shows "has_signal (iloc df a b) = has_signal df"
    and "length (rows (iloc df a b)) = nat (b - a)"
    and "\<forall>j<nat (b - a). rows (iloc df a b) ! j = rows df ! (nat a + j)"
proof -
  have lo: "slice_bound (length (rows df)) a = nat a"
    using assms by (simp add: slice_bound_def)
  have hi: "slice_bound (length (rows df)) b = nat b"
    using assms by (simp add: slice_bound_def)
  have d: "nat b - nat a = nat (b - a)"
    using assms by (simp add: nat_diff_distrib)
  have fits: "nat (b - a) \<le> length (rows df) - nat a"
    using assms by arith
  have r: "rows (iloc df a b) = take (nat (b - a)) (drop (nat a) (rows df))"
    by (simp add: iloc_def Let_def lo hi d)
  show "has_signal (iloc df a b) = has_signal df"
    by (simp add: iloc_def Let_def)
  show "length (rows (iloc df a b)) = nat (b - a)"
    using fits by (simp add: r)
  show "\<forall>j<nat (b - a). rows (iloc df a b) ! j = rows df ! (nat a + j)"
    using fits by (simp add: r)
qed

lemma run_fold_content:
  assumes "run_fold strat df cm train test L n s = Inr f" and "s + train + test \<le> L"
  shows "fold_no f = n \<and> train_range f = (s, s + train)
       \<and> test_range f = (s + train, s + train + test)
       \<and> evaluate_slice strat cm (iloc df s (s + train)) = Inr (in_sample f)
       \<and> evaluate_slice strat cm (iloc df (s + train) (s + train + test))
           = Inr (out_of_sample f)
       \<and> oos_decay_pct f = decay_pct (in_sample f) (out_of_sample f)"
  using assms
  by (auto simp: run_fold_def Let_def bind_err_eq_Inr min_def evaluate_slice_def decay_pct_def
        py_truediv_def split: if_splits)

lemma wf_loop_terminates:
  assumes step: "0 < step"
    and ok: "\<forall>j. start + int j * step + train + test \<le> L \<longrightarrow>
               (\<exists>f. run_fold strat df cm train test L (num + j + 1) (start + int j * step) = Inr f)"
  shows "\<exists>fs. wf_loop strat df cm train test step L num start acc = Some (Inr (acc @ fs))
           \<and> length fs = fold_count L train test step start
           \<and> (\<forall>j<length fs.
                 run_fold strat df cm train test L (num + j + 1) (start + int j * step)
                   = Inr (fs ! j)
                 \<and> start + int j * step + train + test \<le> L)"
  using ok
proof (induction "nat (L - (start + train + test) + 1)" arbitrary: start num acc rule: less_induct)
  case less
  show ?case
  proof (cases "start + train + test \<le> L")
    case False
    then show ?thesis
      by (subst wf_loop.simps) (simp add: fold_count_def)
  next
    case True
    from less.prems [rule_format, of 0] True obtain f where
      f: "run_fold strat df cm train test L (num + 1) start = Inr f" by auto
    have dec: "nat (L - (start + step + train + test) + 1) < nat (L - (start + train + test) + 1)"
      using step True by simp
    have ok': "\<forall>j. start + step + int j * step + train + test \<le> L \<longrightarrow>
        (\<exists>f. run_fold strat df cm train test L (num + 1 + j + 1) (start + step + int j * step)
               = Inr f)"
    proof (intro allI impI)
      fix j
      assume "start + step + int j * step + train + test \<le> L"
      then have "start + int (Suc j) * step + train + test \<le> L"
        by (simp add: algebra_simps)
      from less.prems [rule_format, OF this]
      show "\<exists>f. run_fold strat df cm train test L (num + 1 + j + 1) (start + step + int j * step)
               = Inr f"
        by (simp add: algebra_simps)
    qed
    from less.hyps [OF dec ok', of "acc @ [f]"] obtain fs where
      fs: "wf_loop strat df cm train test step L (num + 1) (start + step) (acc @ [f])
             = Some (Inr ((acc @ [f]) @ fs))"
      and len: "length fs = fold_count L train test step (start + step)"
      and props: "\<forall>j<length fs.
          run_fold strat df cm train test L (num + 1 + j + 1) (start + step + int j * step)
            = Inr (fs ! j)
          \<and> start + step + int j * step + train + test \<le> L"
      by blast
    have run: "wf_loop strat df cm train test step L num start acc = Some (Inr (acc @ (f # fs)))"
      by (subst wf_loop.simps) (use True f fs in simp)
    have len': "length (f # fs) = fold_count L train test step start"
      using len fold_count_step [OF step True] by simp
    have props': "run_fold strat df cm train test L (num + j + 1) (start + int j * step)
            = Inr ((f # fs) ! j)
        \<and> start + int j * step + train + test \<le> L"
      if "j < length (f # fs)" for j
    proof (cases j)
      case 0
      with f True show ?thesis by simp
    next
      case (Suc i)
      with that have "i < length fs" by simp
      with props Suc show ?thesis by (simp add: algebra_simps)
    qed
    from run len' props' show ?thesis by blast
  qed
qed

lemma wf_aggregate_empty: "wf_aggregate_of [] = zero_aggregate"
  by (simp add: wf_aggregate_of_def zero_aggregate_def)

lemma wf_loop_no_fold:
  assumes "\<not> start + train + test \<le> L"
  shows "wf_loop strat df cm train test step L num start acc = Some (Inr acc)"
  by (subst wf_loop.simps) (use assms in simp)

text \<open>
  Claim C6, counterexample. With five bars, four train bars and one test bar, exactly one
  fold fits. With a step of 0, or of -1 (for which floor((5 - 4 - 1) / -1) + 1 = 1), the
  start position never passes the end of the series and the loop never returns: no report
  is produced at all.
\<close>

theorem walk_forward_nonpositive_step_counterexample:
  "run_walk_forward flat_strategy price_frame DEFAULT_FUTURES_COST
     \<lparr>train_bars = 4, test_bars = 1, step_bars = Some 0\<rparr> = None
   \<and> run_walk_forward flat_strategy price_frame DEFAULT_FUTURES_COST
     \<lparr>train_bars = 4, test_bars = 1, step_bars = Some (- 1)\<rparr> = None"
proof -
  have ok: "\<forall>n s. \<exists>f. run_fold flat_strategy price_frame DEFAULT_FUTURES_COST 4 1 5 n s = Inr f"
    by (simp add: run_fold_flat)
  have "wf_loop flat_strategy price_frame DEFAULT_FUTURES_COST 4 1 0 5 0 0 [] = None"
    by (rule wf_loop_diverges [OF _ _ ok]) simp_all
  moreover have "wf_loop flat_strategy price_frame DEFAULT_FUTURES_COST 4 1 (- 1) 5 0 0 [] = None"
    by (rule wf_loop_diverges [OF _ _ ok]) simp_all
  ultimately show ?thesis
    by (simp add: run_walk_forward_def cfg_step_def price_frame_def)
qed

text \<open>
  Claim C6, as amended. When the series is shorter than train plus test bars, the report
  has no fold and zero aggregates, and nothing is raised, whatever the step. When train
  plus test bars fit, the step is at least 1 and no fold's evaluation raises, the report
  has exactly floor((L - train - test) / step) + 1 folds; fold k (from 0) is numbered
  k + 1, its in-sample metrics are those of the strategy, simulator and metrics run on the
  slice [k * step, k * step + train) of the series and its out-of-sample metrics those on
  the slice [k * step + train, k * step + train + test), both ranges being recorded in
  the fold and lying inside the series; its decay is computed from these two. A slice
  [a, b) with 0 <= a <= b <= L is the b - a rows of the series from row a on.
\<close>

theorem walk_forward_fold_count:
  "(int (length (rows df)) < train_bars cfg + test_bars cfg \<longrightarrow>
      run_walk_forward strat df cm cfg =
        Some (Inr \<lparr>config = cfg, total_folds = 0, folds = [], aggregate = zero_aggregate\<rparr>))
   \<and> (train_bars cfg + test_bars cfg \<le> int (length (rows df)) \<and> 0 < cfg_step cfg
       \<and> (\<forall>k. int k * cfg_step cfg + train_bars cfg + test_bars cfg \<le> int (length (rows df))
              \<longrightarrow> (\<exists>f. run_fold strat df cm (train_bars cfg) (test_bars cfg)
                          (int (length (rows df))) (k + 1) (int k * cfg_step cfg) = Inr f))
       \<longrightarrow> (\<exists>rep. run_walk_forward strat df cm cfg = Some (Inr rep)
              \<and> total_folds rep =
                  nat ((int (length (rows df)) - train_bars cfg - test_bars cfg) div cfg_step cfg)
                  + 1
              \<and> length (folds rep) = total_folds rep
              \<and> (\<forall>k<total_folds rep.
                    fold_no (folds rep ! k) = k + 1
                    \<and> train_range (folds rep ! k) =
                        (int k * cfg_step cfg, int k * cfg_step cfg + train_bars cfg)
                    \<and> test_range (folds rep ! k) =
                        (int k * cfg_step cfg + train_bars cfg,
                         int k * cfg_step cfg + train_bars cfg + test_bars cfg)
                    \<and> int k * cfg_step cfg + train_bars cfg + test_bars cfg
                        \<le> int (length (rows df))
                    \<and> evaluate_slice strat cm
                        (iloc df (int k * cfg_step cfg) (int k * cfg_step cfg + train_bars cfg))
                        = Inr (in_sample (folds rep ! k))
                    \<and> evaluate_slice strat cm
                        (iloc df (int k * cfg_step cfg + train_bars cfg)
                           (int k * cfg_step cfg + train_bars cfg + test_bars cfg))
                        = Inr (out_of_sample (folds rep ! k))
                    \<and> oos_decay_pct (folds rep ! k) =
                        decay_pct (in_sample (folds rep ! k)) (out_of_sample (folds rep ! k)))))
   \<and> (0 \<le> a \<and> a \<le> b \<and> b \<le> int (length (rows df)) \<longrightarrow>
        has_signal (iloc df a b) = has_signal df
        \<and> length (rows (iloc df a b)) = nat (b - a)
        \<and> (\<forall>j<nat (b - a). rows (iloc df a b) ! j = rows df ! (nat a + j)))"
proof (intro conjI impI)
  assume "int (length (rows df)) < train_bars cfg + test_bars cfg"
  then have "\<not> 0 + train_bars cfg + test_bars cfg \<le> int (length (rows df))" by simp
  from wf_loop_no_fold [OF this]
  show "run_walk_forward strat df cm cfg =
      Some (Inr \<lparr>config = cfg, total_folds = 0, folds = [], aggregate = zero_aggregate\<rparr>)"
    by (simp add: run_walk_forward_def Let_def wf_aggregate_empty)
next
  let ?L = "int (length (rows df))" and ?tr = "train_bars cfg" and ?te = "test_bars cfg"
    and ?st = "cfg_step cfg"
  assume h: "?tr + ?te \<le> ?L \<and> 0 < ?st
       \<and> (\<forall>k. int k * ?st + ?tr + ?te \<le> ?L
              \<longrightarrow> (\<exists>f. run_fold strat df cm ?tr ?te ?L (k + 1) (int k * ?st) = Inr f))"
  then have step: "0 < ?st" and fits: "?tr + ?te \<le> ?L" by simp_all
  have ok: "\<forall>j. 0 + int j * ?st + ?tr + ?te \<le> ?L \<longrightarrow>
      (\<exists>f. run_fold strat df cm ?tr ?te ?L (0 + j + 1) (0 + int j * ?st) = Inr f)"
    using h by simp
  from wf_loop_terminates [OF step ok, of "[]"] obtain fs where
    run: "wf_loop strat df cm ?tr ?te ?st ?L 0 0 [] = Some (Inr fs)"
    and len: "length fs = fold_count ?L ?tr ?te ?st 0"
    and props: "\<forall>j<length fs.
        run_fold strat df cm ?tr ?te ?L (0 + j + 1) (0 + int j * ?st) = Inr (fs ! j)
        \<and> 0 + int j * ?st + ?tr + ?te \<le> ?L"
    by auto
  have cnt: "length fs = nat ((?L - ?tr - ?te) div ?st) + 1"
    using len fits by (simp add: fold_count_def)
  let ?rep = "\<lparr>config = cfg, total_folds = length fs, folds = fs,
                aggregate = wf_aggregate_of fs\<rparr>"
  have r: "run_walk_forward strat df cm cfg = Some (Inr ?rep)"
    using run by (simp add: run_walk_forward_def Let_def)
  have each: "fold_no (fs ! k) = k + 1
      \<and> train_range (fs ! k) = (int k * ?st, int k * ?st + ?tr)
      \<and> test_range (fs ! k) = (int k * ?st + ?tr, int k * ?st + ?tr + ?te)
      \<and> int k * ?st + ?tr + ?te \<le> ?L
      \<and> evaluate_slice strat cm (iloc df (int k * ?st) (int k * ?st + ?tr))
          = Inr (in_sample (fs ! k))
      \<and> evaluate_slice strat cm (iloc df (int k * ?st + ?tr) (int k * ?st + ?tr + ?te))
          = Inr (out_of_sample (fs ! k))
      \<and> oos_decay_pct (fs ! k) = decay_pct (in_sample (fs ! k)) (out_of_sample (fs ! k))"
    if "k < length fs" for k
  proof -
    from props that have
      f: "run_fold strat df cm ?tr ?te ?L (k + 1) (int k * ?st) = Inr (fs ! k)"
      and inside: "int k * ?st + ?tr + ?te \<le> ?L"
      by simp_all
    from run_fold_content [OF f inside] inside show ?thesis by simp
  qed
  have "total_folds ?rep = nat ((?L - ?tr - ?te) div ?st) + 1
      \<and> length (folds ?rep) = total_folds ?rep
      \<and> (\<forall>k<total_folds ?rep.
            fold_no (folds ?rep ! k) = k + 1
            \<and> train_range (folds ?rep ! k) = (int k * ?st, int k * ?st + ?tr)
            \<and> test_range (folds ?rep ! k) = (int k * ?st + ?tr, int k * ?st + ?tr + ?te)
            \<and> int k * ?st + ?tr + ?te \<le> ?L
            \<and> evaluate_slice strat cm (iloc df (int k * ?st) (int k * ?st + ?tr))
                = Inr (in_sample (folds ?rep ! k))
            \<and> evaluate_slice strat cm (iloc df (int k * ?st + ?tr) (int k * ?st + ?tr + ?te))
                = Inr (out_of_sample (folds ?rep ! k))
            \<and> oos_decay_pct (folds ?rep ! k) =
                decay_pct (in_sample (folds ?rep ! k)) (out_of_sample (folds ?rep ! k)))"
    using cnt each by simp
  with r show "\<exists>rep. run_walk_forward strat df cm cfg = Some (Inr rep)
      \<and> total_folds rep = nat ((?L - ?tr - ?te) div ?st) + 1
      \<and> length (folds rep) = total_folds rep
      \<and> (\<forall>k<total_folds rep.
            fold_no (folds rep ! k) = k + 1
            \<and> train_range (folds rep ! k) = (int k * ?st, int k * ?st + ?tr)
            \<and> test_range (folds rep ! k) = (int k * ?st + ?tr, int k * ?st + ?tr + ?te)
            \<and> int k * ?st + ?tr + ?te \<le> ?L
            \<and> evaluate_slice strat cm (iloc df (int k * ?st) (int k * ?st + ?tr))
                = Inr (in_sample (folds rep ! k))
            \<and> evaluate_slice strat cm (iloc df (int k * ?st + ?tr) (int k * ?st + ?tr + ?te))
                = Inr (out_of_sample (folds rep ! k))
            \<and> oos_decay_pct (folds rep ! k) =
                decay_pct (in_sample (folds rep ! k)) (out_of_sample (folds rep ! k)))"
    by blast
next
  assume h: "0 \<le> a \<and> a \<le> b \<and> b \<le> int (length (rows df))"
  then show "has_signal (iloc df a b) = has_signal df"
    using iloc_rows(1) [of a b df] by simp
  from h show "length (rows (iloc df a b)) = nat (b - a)"
    using iloc_rows(2) [of a b df] by simp
  from h show "\<forall>j<nat (b - a). rows (iloc df a b) ! j = rows df ! (nat a + j)"
    using iloc_rows(3) [of a b df] by simp
qed

theorem walk_forward_fold_count_witness:
  "run_walk_forward flat_strategy price_frame DEFAULT_FUTURES_COST
     \<lparr>train_bars = 5, test_bars = 1, step_bars = None\<rparr> =
     Some (Inr \<lparr>config = \<lparr>train_bars = 5, test_bars = 1, step_bars = None\<rparr>,
                total_folds = 0, folds = [], aggregate = zero_aggregate\<rparr>)
   \<and> (\<exists>rep. run_walk_forward flat_strategy price_frame DEFAULT_FUTURES_COST
               \<lparr>train_bars = 2, test_bars = 1, step_bars = Some 1\<rparr> = Some (Inr rep)
          \<and> total_folds rep = 3 \<and> length (folds rep) = 3
          \<and> fold_no (folds rep ! 2) = 3
          \<and> train_range (folds rep ! 2) = (2, 4)
          \<and> test_range (folds rep ! 2) = (4, 5)
          \<and> evaluate_slice flat_strategy DEFAULT_FUTURES_COST (iloc price_frame 2 4)
              = Inr (in_sample (folds rep ! 2))
          \<and> evaluate_slice flat_strategy DEFAULT_FUTURES_COST (iloc price_frame 4 5)
              = Inr (out_of_sample (folds rep ! 2)))
   \<and> length (rows (iloc price_frame 2 4)) = 2
   \<and> rows (iloc price_frame 2 4) ! 0 = rows price_frame ! 2
   \<and> rows (iloc price_frame 2 4) ! 1 = rows price_frame ! 3"
proof -
  let ?c0 = "\<lparr>train_bars = 5, test_bars = 1, step_bars = None\<rparr>"
  let ?c1 = "\<lparr>train_bars = 2, test_bars = 1, step_bars = Some 1\<rparr>"
  note T0 = walk_forward_fold_count
    [where df = price_frame and cfg = ?c0 and strat = flat_strategy
       and cm = DEFAULT_FUTURES_COST]
  note T1 = walk_forward_fold_count
    [where df = price_frame and cfg = ?c1 and strat = flat_strategy
       and cm = DEFAULT_FUTURES_COST and a = 2 and b = 4]
  have len: "int (length (rows price_frame)) = 5" by (simp add: price_frame_def)
  have p0: "run_walk_forward flat_strategy price_frame DEFAULT_FUTURES_COST ?c0 =
     Some (Inr \<lparr>config = ?c0, total_folds = 0, folds = [], aggregate = zero_aggregate\<rparr>)"
    using T0 len by simp
  have st: "cfg_step ?c1 = 1" by (simp add: cfg_step_def)
  have "train_bars ?c1 + test_bars ?c1 \<le> int (length (rows price_frame)) \<and> 0 < cfg_step ?c1
       \<and> (\<forall>k. int k * cfg_step ?c1 + train_bars ?c1 + test_bars ?c1
                  \<le> int (length (rows price_frame))
              \<longrightarrow> (\<exists>f. run_fold flat_strategy price_frame DEFAULT_FUTURES_COST (train_bars ?c1)
                          (test_bars ?c1) (int (length (rows price_frame))) (k + 1)
                          (int k * cfg_step ?c1) = Inr f))"
    by (simp add: st len run_fold_flat)
  with T1 obtain rep where
    r: "run_walk_forward flat_strategy price_frame DEFAULT_FUTURES_COST ?c1 = Some (Inr rep)"
    and n: "total_folds rep =
        nat ((int (length (rows price_frame)) - train_bars ?c1 - test_bars ?c1) div cfg_step ?c1)
        + 1"
    and l: "length (folds rep) = total_folds rep"
    and p: "\<forall>k<total_folds rep.
          fold_no (folds rep ! k) = k + 1
          \<and> train_range (folds rep ! k) =
              (int k * cfg_step ?c1, int k * cfg_step ?c1 + train_bars ?c1)
          \<and> test_range (folds rep ! k) =
              (int k * cfg_step ?c1 + train_bars ?c1,
               int k * cfg_step ?c1 + train_bars ?c1 + test_bars ?c1)
          \<and> int k * cfg_step ?c1 + train_bars ?c1 + test_bars ?c1
              \<le> int (length (rows price_frame))
          \<and> evaluate_slice flat_strategy DEFAULT_FUTURES_COST
              (iloc price_frame (int k * cfg_step ?c1) (int k * cfg_step ?c1 + train_bars ?c1))
              = Inr (in_sample (folds rep ! k))
          \<and> evaluate_slice flat_strategy DEFAULT_FUTURES_COST
              (iloc price_frame (int k * cfg_step ?c1 + train_bars ?c1)
                 (int k * cfg_step ?c1 + train_bars ?c1 + test_bars ?c1))
              = Inr (out_of_sample (folds rep ! k))
          \<and> oos_decay_pct (folds rep ! k) =
              decay_pct (in_sample (folds rep ! k)) (out_of_sample (folds rep ! k))"
    by blast
  from n have n3: "total_folds rep = 3" by (simp add: st len)
  from p [rule_format, of 2] n3 have
    "fold_no (folds rep ! 2) = 3 \<and> train_range (folds rep ! 2) = (2, 4)
     \<and> test_range (folds rep ! 2) = (4, 5)
     \<and> evaluate_slice flat_strategy DEFAULT_FUTURES_COST (iloc price_frame 2 4)
         = Inr (in_sample (folds rep ! 2))
     \<and> evaluate_slice flat_strategy DEFAULT_FUTURES_COST (iloc price_frame 4 5)
         = Inr (out_of_sample (folds rep ! 2))"
    by (simp add: st)
  with r n3 l have p1: "\<exists>rep. run_walk_forward flat_strategy price_frame DEFAULT_FUTURES_COST
               ?c1 = Some (Inr rep)
          \<and> total_folds rep = 3 \<and> length (folds rep) = 3
          \<and> fold_no (folds rep ! 2) = 3
          \<and> train_range (folds rep ! 2) = (2, 4)
          \<and> test_range (folds rep ! 2) = (4, 5)
          \<and> evaluate_slice flat_strategy DEFAULT_FUTURES_COST (iloc price_frame 2 4)
              = Inr (in_sample (folds rep ! 2))
          \<and> evaluate_slice flat_strategy DEFAULT_FUTURES_COST (iloc price_frame 4 5)
              = Inr (out_of_sample (folds rep ! 2))"
    by auto
  have "(0::int) \<le> 2 \<and> (2::int) \<le> 4 \<and> 4 \<le> int (length (rows price_frame))"
    by (simp add: len)
  with T1 have sl: "length (rows (iloc price_frame 2 4)) = nat (4 - 2)"
    "\<forall>j<nat (4 - 2). rows (iloc price_frame 2 4) ! j = rows price_frame ! (nat 2 + j)"
    by blast+
  from sl(1) have q1: "length (rows (iloc price_frame 2 4)) = 2" by simp
  from sl(2) [rule_format, of 0] have q2: "rows (iloc price_frame 2 4) ! 0 = rows price_frame ! 2"
    by simp
  from sl(2) [rule_format, of 1] have q3: "rows (iloc price_frame 2 4) ! 1 = rows price_frame ! 3"
    by (simp add: numeral_3_eq_3 numeral_2_eq_2)
  from p0 p1 q1 q2 q3 show ?thesis by blast
qed

subsection \<open>Extreme-value VaR\<close>











end
